theory Spec2Isabelle
  imports Complex_Main "HOL-Library.Char_ord" "HOL-Library.List_Lexorder" "HOL-Library.AList"
begin

section \<open>Model configuration and credential resolution of the courseware agents\<close>

text \<open>
  A shallow embedding of \<^verbatim>\<open>settings/api_database.py\<close>, \<^verbatim>\<open>settings/api_manager.py\<close> and
  \<^verbatim>\<open>settings/model_configs.py\<close>. Python's \<^verbatim>\<open>None\<close> is \<open>None\<close> of an option type, an
  exception is the left injection of a sum, and every function that touches the SQLite
  file, the session state or the file system takes the state and returns the new one.
  A string is a list of characters, each a code point below 256. What the environment
  decides (the clock, a failing disk, the process environment, the secrets file, the key
  read when \<^verbatim>\<open>model_configs\<close> was imported) is a parameter of the function that meets it.
\<close>

subsection \<open>Exceptions\<close>

datatype error =
    IntegrityError
  | OperationalError
  | AttributeError
  | ImportError
  | TypeError
  | JSONDecodeError
  | FileNotFoundError
  | SecretNotFoundError

subsection \<open>Credential source resolver (api\_manager.py)\<close>

text \<open>
  \<^verbatim>\<open>os.environ\<close> is a map from variable names to values. \<^verbatim>\<open>st.secrets\<close> is a map read
  from \<^verbatim>\<open>.streamlit/secrets.toml\<close>; without that file every access raises, which is
  \<open>None\<close> here.
\<close>

type_synonym environ = "string \<rightharpoonup> string"
type_synonym secrets = "(string \<rightharpoonup> string) option"

text \<open>\<^verbatim>\<open>os.environ.get(key, default)\<close>\<close>

definition environ_get :: "environ \<Rightarrow> string \<Rightarrow> string \<Rightarrow> string" where
  "environ_get env key dflt = (case env key of None \<Rightarrow> dflt | Some v \<Rightarrow> v)"

text \<open>\<^verbatim>\<open>st.secrets.get(key, default)\<close>\<close>

definition st_secrets_get :: "secrets \<Rightarrow> string \<Rightarrow> string \<Rightarrow> error + string" where
  "st_secrets_get sec key dflt =
     (case sec of
        None \<Rightarrow> Inl SecretNotFoundError
      | Some m \<Rightarrow> Inr (case m key of None \<Rightarrow> dflt | Some v \<Rightarrow> v))"

text \<open>
  \<^verbatim>\<open>
  def _get_secret(key, default=""):
      env_value = os.environ.get(key, "")
      if env_value:
          return env_value
      try:
          return st.secrets.get(key, default)
      except Exception:
          return default
  \<close>
\<close>

definition get_secret :: "environ \<Rightarrow> secrets \<Rightarrow> string \<Rightarrow> string \<Rightarrow> error + string" where
  "get_secret env sec key dflt =
     (let env_value = environ_get env key '''' in
      if env_value \<noteq> '''' then Inr env_value
      else (case st_secrets_get sec key dflt of
              Inr v \<Rightarrow> Inr v
            | Inl e \<Rightarrow> Inr dflt))"

definition api_key_names :: "string list" where
  "api_key_names =
     [''OPENAI_API_KEY'', ''DEEPSEEK_API_KEY'', ''GEMINI_API_KEY'',
      ''OPENROUTER_API_KEY'', ''GROQ_API_KEY'', ''GROK_API_KEY'']"

text \<open>
  A dictionary of API keys is an association list in the order the source writes it;
  \<^verbatim>\<open>keys.get(key_name, "")\<close> reads it.
\<close>

type_synonym api_keys = "(string \<times> string) list"

definition keys_get :: "api_keys \<Rightarrow> string \<Rightarrow> string \<Rightarrow> string" where
  "keys_get keys k dflt = (case map_of keys k of None \<Rightarrow> dflt | Some v \<Rightarrow> v)"

text \<open>
  The dictionary literal of \<^verbatim>\<open>load_api_keys\<close>: the six keys, each resolved by
  \<^verbatim>\<open>_get_secret(key, "")\<close>; an exception of a lookup would leave the function at once.
\<close>

fun load_keys :: "environ \<Rightarrow> secrets \<Rightarrow> string list \<Rightarrow> error + api_keys" where
  "load_keys env sec [] = Inr []"
| "load_keys env sec (k # ks) =
     (case get_secret env sec k '''' of
        Inl e \<Rightarrow> Inl e
      | Inr v \<Rightarrow> (case load_keys env sec ks of
                    Inl e \<Rightarrow> Inl e
                  | Inr kvs \<Rightarrow> Inr ((k, v) # kvs)))"

definition base_keys :: "environ \<Rightarrow> secrets \<Rightarrow> error + api_keys" where
  "base_keys env sec = load_keys env sec api_key_names"

subsection \<open>The model profile store (api\_database.py)\<close>

text \<open>
  One row of the table \<^verbatim>\<open>custom_models\<close>. The columns declared \<^verbatim>\<open>NOT NULL\<close> hold a
  value, the others may hold SQL \<^verbatim>\<open>NULL\<close>. A timestamp is a reading of the clock.
\<close>

type_synonym time = nat

record row =
  col_id :: nat
  col_name :: string
  col_provider :: string
  col_model_id :: string
  col_base_url :: "string option"
  col_temperature :: "real option"
  col_api_provider :: "string option"
  col_created_at :: time
  col_updated_at :: time

text \<open>
  The database file: the rows of \<^verbatim>\<open>custom_models\<close> in insertion order and the counter
  that \<^verbatim>\<open>AUTOINCREMENT\<close> keeps in \<^verbatim>\<open>sqlite_sequence\<close>. A file that has no table yet is
  the empty table, which is what \<^verbatim>\<open>CREATE TABLE IF NOT EXISTS\<close> makes of it; the table
  \<^verbatim>\<open>provider_settings\<close> takes no part in what follows and is left out.
\<close>

record db =
  custom_models :: "row list"
  seq :: nat

text \<open>
  What the environment does to one call of a store function: nothing, or an exception
  raised while \<^verbatim>\<open>init_database\<close> runs, while the statement executes, or at commit.
\<close>

datatype fault = NoFault | InitFault error | ExecuteFault error | CommitFault error

definition init_database :: "fault \<Rightarrow> db \<Rightarrow> error + db" where
  "init_database flt d = (case flt of InitFault e \<Rightarrow> Inl e | _ \<Rightarrow> Inr d)"

text \<open>
  A connection sees its own uncommitted changes; the file keeps the committed state
  until \<^verbatim>\<open>commit\<close>.
\<close>

record conn =
  persisted :: db
  pending :: db

definition connect :: "db \<Rightarrow> conn" where
  "connect d = \<lparr>persisted = d, pending = d\<rparr>"

definition commit :: "fault \<Rightarrow> conn \<Rightarrow> error + db" where
  "commit flt c = (case flt of CommitFault e \<Rightarrow> Inl e | _ \<Rightarrow> Inr (pending c))"

definition rollback :: "conn \<Rightarrow> db" where
  "rollback c = persisted c"

text \<open>
  \<^verbatim>\<open>
  @contextmanager
  def get_connection():
      conn = sqlite3.connect(get_db_path())
      try:
          yield conn
          conn.commit()
      except Exception as e:
          conn.rollback()
          raise e
      finally:
          conn.close()
  \<close>
  The body of the \<^verbatim>\<open>with\<close> block is a function of the connection that returns a value
  and the connection, or raises. The result is what the \<^verbatim>\<open>with\<close> statement gives its
  surroundings, and the file as the closed connection leaves it.
\<close>

definition get_connection ::
  "fault \<Rightarrow> (conn \<Rightarrow> error + 'a \<times> conn) \<Rightarrow> db \<Rightarrow> (error + 'a) \<times> db" where
  "get_connection flt body d =
     (let conn = connect d in
      case body conn of
        Inl e \<Rightarrow> (Inl e, rollback conn)
      | Inr (v, conn') \<Rightarrow>
          (case commit flt conn' of
             Inl e \<Rightarrow> (Inl e, rollback conn')
           | Inr d' \<Rightarrow> (Inr v, d')))"

definition default_provider :: string where
  "default_provider = ''OpenAIChatCompletionClient''"

definition default_base_url :: string where
  "default_base_url = ''https://openrouter.ai/api/v1''"

definition default_temperature :: real where
  "default_temperature = 0.2"

definition default_api_provider :: string where
  "default_api_provider = ''OPENROUTER''"

text \<open>
  \<^verbatim>\<open>INSERT INTO custom_models (name, provider, model_id, base_url, temperature, api_provider)\<close>.
  The statement fails on \<^verbatim>\<open>NULL\<close> in the \<^verbatim>\<open>NOT NULL\<close> column \<^verbatim>\<open>provider\<close> (the one
  such column a caller in this repository can pass \<^verbatim>\<open>None\<close> for) and on a name the table
  already holds; otherwise the row gets the next \<^verbatim>\<open>AUTOINCREMENT\<close> id and the current
  time in both timestamps.
\<close>

definition next_id :: "db \<Rightarrow> nat" where
  "next_id d = Suc (fold max (map col_id (custom_models d)) (seq d))"

definition execute_insert ::
  "fault \<Rightarrow> time \<Rightarrow> string \<Rightarrow> string option \<Rightarrow> string \<Rightarrow> string option \<Rightarrow> real option
     \<Rightarrow> string option \<Rightarrow> conn \<Rightarrow> error + conn" where
  "execute_insert flt now nm prov mid burl temp aprov c =
     (case flt of
        ExecuteFault e \<Rightarrow> Inl e
      | _ \<Rightarrow>
        (case prov of
           None \<Rightarrow> Inl IntegrityError
         | Some p \<Rightarrow>
             if nm \<in> set (map col_name (custom_models (pending c))) then Inl IntegrityError
             else Inr (c\<lparr>pending :=
                    \<lparr>custom_models = custom_models (pending c) @
                       [\<lparr>col_id = next_id (pending c), col_name = nm, col_provider = p,
                         col_model_id = mid, col_base_url = burl, col_temperature = temp,
                         col_api_provider = aprov, col_created_at = now,
                         col_updated_at = now\<rparr>],
                     seq = next_id (pending c)\<rparr>\<rparr>)))"

text \<open>
  \<^verbatim>\<open>add_custom_model\<close> of api\_database.py, under the name api\_manager.py imports it by.
  Both \<^verbatim>\<open>except\<close> clauses return \<^verbatim>\<open>False\<close>; \<^verbatim>\<open>init_database()\<close> stands before the
  \<^verbatim>\<open>try\<close>.
\<close>

definition db_add_custom_model ::
  "fault \<Rightarrow> time \<Rightarrow> string \<Rightarrow> string \<Rightarrow> string option \<Rightarrow> string option \<Rightarrow> real option
     \<Rightarrow> string option \<Rightarrow> db \<Rightarrow> (error + bool) \<times> db" where
  "db_add_custom_model flt now nm mid prov burl temp aprov d =
     (case init_database flt d of
        Inl e \<Rightarrow> (Inl e, d)
      | Inr d0 \<Rightarrow>
          (case get_connection flt
                  (\<lambda>conn. case execute_insert flt now nm prov mid burl temp aprov conn of
                             Inl e \<Rightarrow> Inl e
                           | Inr conn' \<Rightarrow> Inr (True, conn')) d0 of
             (Inl e, d') \<Rightarrow>
                (case e of IntegrityError \<Rightarrow> (Inr False, d') | _ \<Rightarrow> (Inr False, d'))
           | (Inr v, d') \<Rightarrow> (Inr v, d')))"

text \<open>
  \<^verbatim>\<open>update_custom_model\<close>: the \<^verbatim>\<open>SET\<close> list is built from the arguments that are not
  \<^verbatim>\<open>None\<close>, in the order of the source; with none the function returns \<^verbatim>\<open>True\<close> before
  any statement; otherwise \<^verbatim>\<open>updated_at = CURRENT_TIMESTAMP\<close> is appended and the result
  is \<^verbatim>\<open>cursor.rowcount > 0\<close>.
\<close>

datatype assignment =
    SetModelId string
  | SetProvider string
  | SetBaseUrl string
  | SetTemperature real
  | SetApiProvider string
  | SetUpdatedAt

definition supplied :: "'a option \<Rightarrow> ('a \<Rightarrow> assignment) \<Rightarrow> assignment list" where
  "supplied v mk = (case v of None \<Rightarrow> [] | Some x \<Rightarrow> [mk x])"

fun assign :: "time \<Rightarrow> assignment \<Rightarrow> row \<Rightarrow> row" where
  "assign now (SetModelId v) r = r\<lparr>col_model_id := v\<rparr>"
| "assign now (SetProvider v) r = r\<lparr>col_provider := v\<rparr>"
| "assign now (SetBaseUrl v) r = r\<lparr>col_base_url := Some v\<rparr>"
| "assign now (SetTemperature v) r = r\<lparr>col_temperature := Some v\<rparr>"
| "assign now (SetApiProvider v) r = r\<lparr>col_api_provider := Some v\<rparr>"
| "assign now SetUpdatedAt r = r\<lparr>col_updated_at := now\<rparr>"

definition execute_update ::
  "fault \<Rightarrow> time \<Rightarrow> assignment list \<Rightarrow> string \<Rightarrow> conn \<Rightarrow> error + nat \<times> conn" where
  "execute_update flt now updates nm c =
     (case flt of
        ExecuteFault e \<Rightarrow> Inl e
      | _ \<Rightarrow>
        Inr (length (filter (\<lambda>r. col_name r = nm) (custom_models (pending c))),
             c\<lparr>pending := (pending c)\<lparr>custom_models :=
                  map (\<lambda>r. if col_name r = nm then fold (assign now) updates r else r)
                      (custom_models (pending c))\<rparr>\<rparr>))"

definition update_custom_model ::
  "fault \<Rightarrow> time \<Rightarrow> string \<Rightarrow> string option \<Rightarrow> string option \<Rightarrow> string option \<Rightarrow> real option
     \<Rightarrow> string option \<Rightarrow> db \<Rightarrow> (error + bool) \<times> db" where
  "update_custom_model flt now nm mid prov burl temp aprov d =
     (case init_database flt d of
        Inl e \<Rightarrow> (Inl e, d)
      | Inr d0 \<Rightarrow>
          (case get_connection flt
                  (\<lambda>conn.
                     let updates = supplied mid SetModelId @ supplied prov SetProvider @
                                   supplied burl SetBaseUrl @ supplied temp SetTemperature @
                                   supplied aprov SetApiProvider
                     in if updates = [] then Inr (True, conn)
                        else (case execute_update flt now (updates @ [SetUpdatedAt]) nm conn of
                                Inl e \<Rightarrow> Inl e
                              | Inr (rowcount, conn') \<Rightarrow> Inr (rowcount > 0, conn'))) d0 of
             (Inl e, d') \<Rightarrow> (Inr False, d')
           | (Inr v, d') \<Rightarrow> (Inr v, d')))"

text \<open>\<^verbatim>\<open>DELETE FROM custom_models WHERE name = ?\<close> and \<^verbatim>\<open>delete_custom_model\<close>.\<close>

definition execute_delete :: "fault \<Rightarrow> string \<Rightarrow> conn \<Rightarrow> error + nat \<times> conn" where
  "execute_delete flt nm c =
     (case flt of
        ExecuteFault e \<Rightarrow> Inl e
      | _ \<Rightarrow>
        Inr (length (filter (\<lambda>r. col_name r = nm) (custom_models (pending c))),
             c\<lparr>pending := (pending c)\<lparr>custom_models :=
                  filter (\<lambda>r. col_name r \<noteq> nm) (custom_models (pending c))\<rparr>\<rparr>))"

definition db_delete_custom_model :: "fault \<Rightarrow> string \<Rightarrow> db \<Rightarrow> (error + bool) \<times> db" where
  "db_delete_custom_model flt nm d =
     (case init_database flt d of
        Inl e \<Rightarrow> (Inl e, d)
      | Inr d0 \<Rightarrow>
          (case get_connection flt
                  (\<lambda>conn. case execute_delete flt nm conn of
                             Inl e \<Rightarrow> Inl e
                           | Inr (rowcount, conn') \<Rightarrow> Inr (rowcount > 0, conn')) d0 of
             (Inl e, d') \<Rightarrow> (Inr False, d')
           | (Inr v, d') \<Rightarrow> (Inr v, d')))"

subsection \<open>Dictionaries of a model: the store's export and the legacy record\<close>

text \<open>
  The dictionary that \<^verbatim>\<open>get_all_custom_models\<close> and \<^verbatim>\<open>get_custom_model_by_name\<close> build
  for a row, \<^verbatim>\<open>{id, name, provider, config: {model, temperature, base_url},
  api_provider}\<close>: every key is present, and a nullable column may give \<^verbatim>\<open>None\<close>.
\<close>

record model_config =
  cfg_model :: string
  cfg_temperature :: "real option"
  cfg_base_url :: "string option"

record model_dict =
  m_id :: nat
  m_name :: string
  m_provider :: string
  m_config :: model_config
  m_api_provider :: "string option"

definition row_dict :: "row \<Rightarrow> model_dict" where
  "row_dict r =
     \<lparr>m_id = col_id r,
      m_name = col_name r,
      m_provider = col_provider r,
      m_config = \<lparr>cfg_model = col_model_id r,
                  cfg_temperature = col_temperature r,
                  cfg_base_url = col_base_url r\<rparr>,
      m_api_provider = col_api_provider r\<rparr>"

text \<open>
  \<^verbatim>\<open>SELECT * FROM custom_models ORDER BY name\<close>: the rows by ascending name. SQLite's
  default collation compares the UTF-8 text byte by byte, which orders strings as the
  code points of their characters do, a proper prefix first.
\<close>

definition db_get_all_custom_models :: "db \<Rightarrow> model_dict list" where
  "db_get_all_custom_models d = map row_dict (sort_key col_name (custom_models d))"

text \<open>\<^verbatim>\<open>SELECT * FROM custom_models WHERE name = ?\<close> with \<^verbatim>\<open>fetchone()\<close>.\<close>

definition get_custom_model_by_name :: "string \<Rightarrow> db \<Rightarrow> model_dict option" where
  "get_custom_model_by_name nm d =
     (case find (\<lambda>r. col_name r = nm) (custom_models d) of
        None \<Rightarrow> None
      | Some r \<Rightarrow> Some (row_dict r))"

definition db_model_exists :: "string \<Rightarrow> db \<Rightarrow> bool" where
  "db_model_exists nm d = (find (\<lambda>r. col_name r = nm) (custom_models d) \<noteq> None)"

text \<open>
  A record of the legacy JSON list, \<^verbatim>\<open>{name, provider?, config: {model, base_url?,
  temperature?}, api_provider?}\<close>, as \<^verbatim>\<open>migrate_from_json\<close> reads it: a key is missing,
  holds \<^verbatim>\<open>None\<close> (JSON \<^verbatim>\<open>null\<close>) or holds a value of the type of its column. Keys that
  the migrator never reads are not part of the record.
\<close>

datatype 'a field = Absent | Null | Val 'a

record json_config =
  key_model :: "string field"
  key_temperature :: "real field"
  key_base_url :: "string field"

record json_model =
  key_name :: "string field"
  key_provider :: "string field"
  key_config :: "json_config field"
  key_api_provider :: "string field"

text \<open>\<^verbatim>\<open>d.get(key, default)\<close> and \<^verbatim>\<open>d.get(key)\<close>: the result is a Python value, maybe \<^verbatim>\<open>None\<close>.\<close>

definition dict_get :: "'a field \<Rightarrow> 'a option \<Rightarrow> 'a option" where
  "dict_get f dflt = (case f of Absent \<Rightarrow> dflt | Null \<Rightarrow> None | Val v \<Rightarrow> Some v)"

text \<open>The empty dictionary \<^verbatim>\<open>{}\<close>, the default of \<^verbatim>\<open>model.get("config", {})\<close>.\<close>

definition empty_config :: json_config where
  "empty_config = \<lparr>key_model = Absent, key_temperature = Absent, key_base_url = Absent\<rparr>"

text \<open>
  A dictionary of the store's export handed to the migrator: the same Python object,
  with every key present.
\<close>

definition of_value :: "'a option \<Rightarrow> 'a field" where
  "of_value v = (case v of None \<Rightarrow> Null | Some x \<Rightarrow> Val x)"

definition as_json :: "model_dict \<Rightarrow> json_model" where
  "as_json m =
     \<lparr>key_name = Val (m_name m),
      key_provider = Val (m_provider m),
      key_config = Val \<lparr>key_model = Val (cfg_model (m_config m)),
                        key_temperature = of_value (cfg_temperature (m_config m)),
                        key_base_url = of_value (cfg_base_url (m_config m))\<rparr>,
      key_api_provider = of_value (m_api_provider m)\<rparr>"

subsection \<open>The legacy format migrator\<close>

text \<open>
  \<^verbatim>\<open>
  def migrate_from_json(json_models):
      init_database()
      migrated = 0
      for model in json_models:
          name = model.get("name", "")
          config = model.get("config", {})
          if not name or not config.get("model"):
              continue
          success = add_custom_model(name=name, model_id=config.get("model", ""),
              provider=model.get("provider", "OpenAIChatCompletionClient"),
              base_url=config.get("base_url", "https://openrouter.ai/api/v1"),
              temperature=config.get("temperature", 0.2),
              api_provider=model.get("api_provider", "OPENROUTER"))
          if success:
              migrated += 1
      return migrated
  \<close>
  The environment of the loop gives the fault and the clock reading that the insert of the
  record at each position meets. \<^verbatim>\<open>config.get\<close> on a \<^verbatim>\<open>config\<close> that is \<^verbatim>\<open>None\<close> raises
  \<^verbatim>\<open>AttributeError\<close>, and is reached only when the name is not empty.
\<close>

fun migrate_loop ::
  "(nat \<Rightarrow> fault \<times> time) \<Rightarrow> json_model list \<Rightarrow> nat \<Rightarrow> db \<Rightarrow> (error + nat) \<times> db" where
  "migrate_loop w [] migrated d = (Inr migrated, d)"
| "migrate_loop w (model # rest) migrated d =
     (let name = dict_get (key_name model) (Some '''');
          config = dict_get (key_config model) (Some empty_config)
      in case name of
           None \<Rightarrow> migrate_loop (\<lambda>i. w (Suc i)) rest migrated d
         | Some nm \<Rightarrow>
             if nm = '''' then migrate_loop (\<lambda>i. w (Suc i)) rest migrated d
             else (case config of
                     None \<Rightarrow> (Inl AttributeError, d)
                   | Some cfg \<Rightarrow>
                      (case dict_get (key_model cfg) None of
                         None \<Rightarrow> migrate_loop (\<lambda>i. w (Suc i)) rest migrated d
                       | Some mid \<Rightarrow>
                           if mid = '''' then migrate_loop (\<lambda>i. w (Suc i)) rest migrated d
                           else
                             (case db_add_custom_model (fst (w 0)) (snd (w 0)) nm mid
                                     (dict_get (key_provider model) (Some default_provider))
                                     (dict_get (key_base_url cfg) (Some default_base_url))
                                     (dict_get (key_temperature cfg) (Some default_temperature))
                                     (dict_get (key_api_provider model)
                                        (Some default_api_provider)) d of
                                (Inl e, d') \<Rightarrow> (Inl e, d')
                              | (Inr success, d') \<Rightarrow>
                                  migrate_loop (\<lambda>i. w (Suc i)) rest
                                    (if success then migrated + 1 else migrated) d'))))"

definition migrate_from_json ::
  "fault \<Rightarrow> (nat \<Rightarrow> fault \<times> time) \<Rightarrow> json_model list \<Rightarrow> db \<Rightarrow> (error + nat) \<times> db" where
  "migrate_from_json flt w json_models d =
     (case init_database flt d of
        Inl e \<Rightarrow> (Inl e, d)
      | Inr d0 \<Rightarrow> migrate_loop w json_models 0 d0)"

subsection \<open>Session state, legacy file and model management (api\_manager.py)\<close>

text \<open>
  The session state of Streamlit as far as this module uses it: the keys \<^verbatim>\<open>'api_keys'\<close>
  and \<^verbatim>\<open>'custom_models'\<close>, each missing or holding a value.
\<close>

record session_state =
  ss_api_keys :: "api_keys option"
  ss_custom_models :: "model_dict list option"

text \<open>
  What \<^verbatim>\<open>json.load\<close> makes of a file: it raises, or gives the list of records. The
  application is the store, the session state of the running session and the files by
  path.
\<close>

datatype content = NotJson | JsonList "json_model list"

record app =
  store :: db
  session :: session_state
  files :: "string \<rightharpoonup> content"

definition LEGACY_CUSTOM_MODELS_FILE :: string where
  "LEGACY_CUSTOM_MODELS_FILE = ''settings/config/custom_models.json''"

definition json_load :: "content \<Rightarrow> error + json_model list" where
  "json_load f = (case f of NotJson \<Rightarrow> Inl JSONDecodeError | JsonList ms \<Rightarrow> Inr ms)"

text \<open>\<^verbatim>\<open>os.rename(src, dst)\<close>, which on POSIX replaces an existing \<^verbatim>\<open>dst\<close>.\<close>

definition os_rename ::
  "string \<Rightarrow> string \<Rightarrow> (string \<rightharpoonup> content) \<Rightarrow> error + (string \<rightharpoonup> content)" where
  "os_rename src dst fs =
     (case fs src of
        None \<Rightarrow> Inl FileNotFoundError
      | Some f \<Rightarrow> Inr ((fs(src := None))(dst \<mapsto> f)))"

text \<open>\<^verbatim>\<open>load_api_keys\<close>: the dictionary of keys, cached in the session state.\<close>

definition load_api_keys ::
  "environ \<Rightarrow> secrets \<Rightarrow> session_state \<Rightarrow> (error + api_keys) \<times> session_state" where
  "load_api_keys env sec ss =
     (case base_keys env sec of
        Inl e \<Rightarrow> (Inl e, ss)
      | Inr keys \<Rightarrow> (Inr keys, ss\<lparr>ss_api_keys := Some keys\<rparr>))"

text \<open>
  \<^verbatim>\<open>
  def _migrate_json_to_sqlite():
      if os.path.exists(LEGACY_CUSTOM_MODELS_FILE):
          try:
              with open(LEGACY_CUSTOM_MODELS_FILE, 'r') as f:
                  json_models = json.load(f)
              if json_models:
                  migrated = migrate_from_json(json_models)
                  if migrated > 0:
                      print(...)
                  backup_file = LEGACY_CUSTOM_MODELS_FILE + ".migrated"
                  os.rename(LEGACY_CUSTOM_MODELS_FILE, backup_file)
          except Exception as e:
              print(...)
  \<close>
  The rename stands inside \<^verbatim>\<open>if json_models:\<close>, and every exception ends the function
  with what the store holds by then.
\<close>

definition migrate_json_to_sqlite :: "fault \<Rightarrow> (nat \<Rightarrow> fault \<times> time) \<Rightarrow> app \<Rightarrow> app" where
  "migrate_json_to_sqlite flt w a =
     (case files a LEGACY_CUSTOM_MODELS_FILE of
        None \<Rightarrow> a
      | Some f \<Rightarrow>
          (case json_load f of
             Inl e \<Rightarrow> a
           | Inr json_models \<Rightarrow>
               if json_models = [] then a
               else (case migrate_from_json flt w json_models (store a) of
                       (Inl e, d') \<Rightarrow> a\<lparr>store := d'\<rparr>
                     | (Inr migrated, d') \<Rightarrow>
                         (case os_rename LEGACY_CUSTOM_MODELS_FILE
                                 (LEGACY_CUSTOM_MODELS_FILE @ ''.migrated'') (files a) of
                            Inl e \<Rightarrow> a\<lparr>store := d'\<rparr>
                          | Inr fs' \<Rightarrow> a\<lparr>store := d', files := fs'\<rparr>))))"

text \<open>
  \<^verbatim>\<open>load_custom_models\<close>: migrate when the legacy file is there, read the store, overwrite
  the cached list.
\<close>

definition load_custom_models ::
  "fault \<Rightarrow> (nat \<Rightarrow> fault \<times> time) \<Rightarrow> app \<Rightarrow> model_dict list \<times> app" where
  "load_custom_models flt w a =
     (let a1 = migrate_json_to_sqlite flt w a;
          models = db_get_all_custom_models (store a1)
      in (models, a1\<lparr>session := (session a1)\<lparr>ss_custom_models := Some models\<rparr>\<rparr>))"

text \<open>
  \<^verbatim>\<open>if 'custom_models' in st.session_state: del st.session_state['custom_models']\<close>
\<close>

definition drop_custom_models :: "session_state \<Rightarrow> session_state" where
  "drop_custom_models ss =
     (if ss_custom_models ss \<noteq> None then ss\<lparr>ss_custom_models := None\<rparr> else ss)"

text \<open>
  \<^verbatim>\<open>add_custom_model(name, provider, model_id, base_url="", temperature=0.2,
  api_provider="", custom_api_key="")\<close> of api\_manager.py: refuse a name the store holds,
  insert with the defaults put in for empty strings, and drop the cached list on success.
\<close>

definition add_custom_model ::
  "fault \<Rightarrow> time \<Rightarrow> string \<Rightarrow> string \<Rightarrow> string \<Rightarrow> string \<Rightarrow> real \<Rightarrow> string \<Rightarrow> string
     \<Rightarrow> app \<Rightarrow> (error + bool) \<times> app" where
  "add_custom_model flt now nm prov mid burl temp aprov custom_api_key a =
     (if db_model_exists nm (store a) then (Inr False, a)
      else (case db_add_custom_model flt now nm mid (Some prov)
                   (Some (if burl \<noteq> '''' then burl else default_base_url))
                   (Some temp)
                   (Some (if aprov \<noteq> '''' then aprov else default_api_provider))
                   (store a) of
              (Inl e, d') \<Rightarrow> (Inl e, a\<lparr>store := d'\<rparr>)
            | (Inr success, d') \<Rightarrow>
                (Inr success,
                 if success then a\<lparr>store := d', session := drop_custom_models (session a)\<rparr>
                 else a\<lparr>store := d'\<rparr>)))"


subsection \<open>Built-in profiles (model\_configs.py)\<close>

text \<open>
  The static configuration dictionaries, \<^verbatim>\<open>{provider, config: {model, base_url, api_key,
  temperature, response_format, model_info}}\<close>. The module reads \<^verbatim>\<open>OPENROUTER_API_KEY\<close>
  once, when it is imported; that value is the parameter of the dictionaries.
\<close>

record json_schema =
  schema_name :: string
  schema_strict :: bool

record response_format =
  format_type :: string
  format_json_schema :: json_schema

record model_info =
  info_family :: string
  info_function_calling :: bool
  info_json_output :: bool
  info_vision :: bool
  info_structured_output :: bool

record static_inner =
  b_model :: string
  b_base_url :: string
  b_api_key :: string
  b_temperature :: real
  b_response_format :: response_format
  b_model_info :: model_info

record static_config =
  b_provider :: string
  b_config :: static_inner

definition default_response :: response_format where
  "default_response =
     \<lparr>format_type = ''json_object'',
      format_json_schema = \<lparr>schema_name = ''default_response'', schema_strict = False\<rparr>\<rparr>"

definition deepseek_config :: "string \<Rightarrow> static_config" where
  "deepseek_config OPENROUTER_API_KEY =
     \<lparr>b_provider = ''OpenAIChatCompletionClient'',
      b_config = \<lparr>b_model = ''deepseek/deepseek-chat'',
                  b_base_url = ''https://openrouter.ai/api/v1'',
                  b_api_key = OPENROUTER_API_KEY,
                  b_temperature = 0.2,
                  b_response_format = default_response,
                  b_model_info = \<lparr>info_family = ''unknown'', info_function_calling = False,
                                  info_json_output = True, info_vision = False,
                                  info_structured_output = True\<rparr>\<rparr>\<rparr>"

definition gpt4o_mini_config :: "string \<Rightarrow> static_config" where
  "gpt4o_mini_config OPENROUTER_API_KEY =
     \<lparr>b_provider = ''OpenAIChatCompletionClient'',
      b_config = \<lparr>b_model = ''openai/gpt-4o-mini'',
                  b_base_url = ''https://openrouter.ai/api/v1'',
                  b_api_key = OPENROUTER_API_KEY,
                  b_temperature = 0.2,
                  b_response_format = default_response,
                  b_model_info = \<lparr>info_family = ''openai'', info_function_calling = True,
                                  info_json_output = True, info_vision = False,
                                  info_structured_output = True\<rparr>\<rparr>\<rparr>"

definition claude_sonnet_config :: "string \<Rightarrow> static_config" where
  "claude_sonnet_config OPENROUTER_API_KEY =
     \<lparr>b_provider = ''OpenAIChatCompletionClient'',
      b_config = \<lparr>b_model = ''anthropic/claude-3.5-sonnet'',
                  b_base_url = ''https://openrouter.ai/api/v1'',
                  b_api_key = OPENROUTER_API_KEY,
                  b_temperature = 0.2,
                  b_response_format = default_response,
                  b_model_info = \<lparr>info_family = ''anthropic'', info_function_calling = True,
                                  info_json_output = True, info_vision = True,
                                  info_structured_output = True\<rparr>\<rparr>\<rparr>"

definition gemini_flash_config :: "string \<Rightarrow> static_config" where
  "gemini_flash_config OPENROUTER_API_KEY =
     \<lparr>b_provider = ''OpenAIChatCompletionClient'',
      b_config = \<lparr>b_model = ''google/gemini-2.0-flash-exp'',
                  b_base_url = ''https://openrouter.ai/api/v1'',
                  b_api_key = OPENROUTER_API_KEY,
                  b_temperature = 0.2,
                  b_response_format = default_response,
                  b_model_info = \<lparr>info_family = ''google'', info_function_calling = False,
                                  info_json_output = True, info_vision = True,
                                  info_structured_output = True\<rparr>\<rparr>\<rparr>"

definition gemini_pro_config :: "string \<Rightarrow> static_config" where
  "gemini_pro_config OPENROUTER_API_KEY =
     \<lparr>b_provider = ''OpenAIChatCompletionClient'',
      b_config = \<lparr>b_model = ''google/gemini-pro-1.5'',
                  b_base_url = ''https://openrouter.ai/api/v1'',
                  b_api_key = OPENROUTER_API_KEY,
                  b_temperature = 0.2,
                  b_response_format = default_response,
                  b_model_info = \<lparr>info_family = ''google'', info_function_calling = False,
                                  info_json_output = True, info_vision = True,
                                  info_structured_output = True\<rparr>\<rparr>\<rparr>"

definition default_config :: "string \<Rightarrow> static_config" where
  "default_config OPENROUTER_API_KEY = deepseek_config OPENROUTER_API_KEY"

definition MODEL_CHOICES :: "string \<Rightarrow> (string \<times> static_config) list" where
  "MODEL_CHOICES OPENROUTER_API_KEY =
     [(''DeepSeek-Chat'', deepseek_config OPENROUTER_API_KEY),
      (''GPT-4o-Mini'', gpt4o_mini_config OPENROUTER_API_KEY),
      (''Claude-Sonnet-3.5'', claude_sonnet_config OPENROUTER_API_KEY),
      (''Gemini-Flash'', gemini_flash_config OPENROUTER_API_KEY),
      (''Gemini-Pro'', gemini_pro_config OPENROUTER_API_KEY)]"

subsection \<open>All available models (api\_manager.py)\<close>

text \<open>
  \<^verbatim>\<open>s.lower()\<close> on a string of 8-bit characters read as Latin-1: the letters A to Z and
  the accented capitals move up by 32, everything else stays.
\<close>

definition lower_char :: "char \<Rightarrow> char" where
  "lower_char c =
     (let n = (of_char c :: nat) in
      if (65 \<le> n \<and> n \<le> 90) \<or> (192 \<le> n \<and> n \<le> 222 \<and> n \<noteq> 215) then char_of (n + 32) else c)"

definition lower :: "string \<Rightarrow> string" where
  "lower s = map lower_char s"

text \<open>\<^verbatim>\<open>sub in s\<close> for strings: \<^verbatim>\<open>sub\<close> occurs in \<^verbatim>\<open>s\<close> as a contiguous piece.\<close>

fun startswith :: "string \<Rightarrow> string \<Rightarrow> bool" where
  "startswith s [] = True"
| "startswith [] (p # ps) = False"
| "startswith (c # cs) (p # ps) = (c = p \<and> startswith cs ps)"

fun contains :: "string \<Rightarrow> string \<Rightarrow> bool" where
  "contains [] sub = (sub = [])"
| "contains (c # cs) sub = (startswith (c # cs) sub \<or> contains cs sub)"

text \<open>
  The chain of \<^verbatim>\<open>if\<close>/\<^verbatim>\<open>elif\<close> that picks the API key of a built-in model:
  \<^verbatim>\<open>
  base_url = config["config"].get("base_url", "").lower()
  model_name = config["config"]["model"].lower()
  if "generativelanguage.googleapis.com" in base_url or "gemini" in model_name: GEMINI
  elif "openrouter" in base_url: OPENROUTER
  elif "groq" in base_url: GROQ
  elif "x.ai" in base_url or "grok" in model_name: GROK
  elif "deepseek" in base_url or ("deepseek" in model_name and "openrouter" not in base_url):
      DEEPSEEK
  elif "openai" in base_url or "gpt" in model_name or base_url == "": OPENAI
  else: OPENAI
  \<close>
\<close>

definition builtin_api_key :: "api_keys \<Rightarrow> static_config \<Rightarrow> string" where
  "builtin_api_key current_keys config =
     (let base_url = lower (b_base_url (b_config config));
          model_name = lower (b_model (b_config config))
      in if contains base_url ''generativelanguage.googleapis.com''
            \<or> contains model_name ''gemini''
         then keys_get current_keys ''GEMINI_API_KEY'' ''''
         else if contains base_url ''openrouter''
         then keys_get current_keys ''OPENROUTER_API_KEY'' ''''
         else if contains base_url ''groq''
         then keys_get current_keys ''GROQ_API_KEY'' ''''
         else if contains base_url ''x.ai'' \<or> contains model_name ''grok''
         then keys_get current_keys ''GROK_API_KEY'' ''''
         else if contains base_url ''deepseek''
                 \<or> (contains model_name ''deepseek'' \<and> \<not> contains base_url ''openrouter'')
         then keys_get current_keys ''DEEPSEEK_API_KEY'' ''''
         else if contains base_url ''openai'' \<or> contains model_name ''gpt'' \<or> base_url = ''''
         then keys_get current_keys ''OPENAI_API_KEY'' ''''
         else keys_get current_keys ''OPENAI_API_KEY'' '''')"

text \<open>
  An entry of the result of \<^verbatim>\<open>get_all_available_models\<close>: the copy of a built-in
  dictionary with its key replaced, or the dictionary \<^verbatim>\<open>{name, provider, config: {model,
  temperature, base_url, api_key}}\<close> built for a model of the store.
\<close>

record custom_inner =
  x_model :: string
  x_temperature :: "real option"
  x_base_url :: "string option"
  x_api_key :: string

record custom_entry =
  x_name :: string
  x_provider :: string
  x_config :: custom_inner

datatype available_model = StaticModel static_config | CustomModel custom_entry

text \<open>The text an f-string puts for a value that is a string or \<^verbatim>\<open>None\<close>.\<close>

definition fmt :: "string option \<Rightarrow> string" where
  "fmt v = (case v of None \<Rightarrow> ''None'' | Some s \<Rightarrow> s)"

definition with_builtin_key ::
  "api_keys \<Rightarrow> string \<times> static_config \<Rightarrow> (string \<times> available_model) list
     \<Rightarrow> (string \<times> available_model) list" where
  "with_builtin_key current_keys = (\<lambda>(name, config) updated_models.
     AList.update name
       (StaticModel (config\<lparr>b_config := (b_config config)
                        \<lparr>b_api_key := builtin_api_key current_keys config\<rparr>\<rparr>))
       updated_models)"

definition with_custom_key ::
  "api_keys \<Rightarrow> model_dict \<Rightarrow> (string \<times> available_model) list
     \<Rightarrow> (string \<times> available_model) list" where
  "with_custom_key current_keys model updated_models =
     (let api_provider = m_api_provider model;
          resolved_key = keys_get current_keys (fmt api_provider @ ''_API_KEY'') ''''
      in AList.update (m_name model)
           (CustomModel \<lparr>x_name = m_name model,
                         x_provider = m_provider model,
                         x_config = \<lparr>x_model = cfg_model (m_config model),
                                     x_temperature = cfg_temperature (m_config model),
                                     x_base_url = cfg_base_url (m_config model),
                                     x_api_key = resolved_key\<rparr>\<rparr>)
           updated_models)"

text \<open>
  \<^verbatim>\<open>get_all_available_models\<close>: the built-in models in the order of \<^verbatim>\<open>MODEL_CHOICES\<close>,
  each with the key the chain picks, then the models of the store, each under its name
  (replacing a built-in of that name) with the key of its \<^verbatim>\<open>api_provider\<close>.
\<close>

definition get_all_available_models ::
  "string \<Rightarrow> environ \<Rightarrow> secrets \<Rightarrow> fault \<Rightarrow> (nat \<Rightarrow> fault \<times> time) \<Rightarrow> app
     \<Rightarrow> (error + (string \<times> available_model) list) \<times> app" where
  "get_all_available_models OPENROUTER_API_KEY env sec flt w a =
     (case load_api_keys env sec (session a) of
        (Inl e, ss) \<Rightarrow> (Inl e, a\<lparr>session := ss\<rparr>)
      | (Inr current_keys, ss) \<Rightarrow>
          (let updated_models =
                 fold (with_builtin_key current_keys) (MODEL_CHOICES OPENROUTER_API_KEY) [];
               (custom_models, a') = load_custom_models flt w (a\<lparr>session := ss\<rparr>)
           in (Inr (fold (with_custom_key current_keys) custom_models updated_models), a')))"

subsection \<open>Resolution of a profile (model\_configs.py)\<close>

text \<open>
  The names that the module \<^verbatim>\<open>settings.api_database\<close> binds at its top level: its imports,
  its constant and its functions. \<^verbatim>\<open>from settings.api_database import n\<close> finds \<^verbatim>\<open>n\<close>
  among them or raises \<^verbatim>\<open>ImportError\<close>. Of the functions, the one that looks a model up
  by name is kept as a value; the others are not called through an import here.
\<close>

datatype attribute = ByName "string \<Rightarrow> db \<Rightarrow> model_dict option" | Other

definition api_database :: "(string \<times> attribute) list" where
  "api_database =
     [(''sqlite3'', Other), (''os'', Other), (''Dict'', Other), (''List'', Other),
      (''Any'', Other), (''Optional'', Other), (''contextmanager'', Other),
      (''DB_PATH'', Other), (''get_db_path'', Other), (''get_connection'', Other),
      (''init_database'', Other), (''get_all_custom_models'', Other),
      (''get_custom_model_by_name'', ByName get_custom_model_by_name),
      (''add_custom_model'', Other), (''update_custom_model'', Other),
      (''delete_custom_model'', Other), (''model_exists'', Other),
      (''get_provider_settings'', Other), (''set_provider_settings'', Other),
      (''migrate_from_json'', Other)]"

definition import_from :: "(string \<times> attribute) list \<Rightarrow> string \<Rightarrow> error + attribute" where
  "import_from names n = (case map_of names n of None \<Rightarrow> Inl ImportError | Some v \<Rightarrow> Inr v)"

text \<open>
  The dictionary \<^verbatim>\<open>get_model_config\<close> returns: built from a model of the store, or a
  static dictionary with the key \<^verbatim>\<open>api_provider\<close> added.
\<close>

record resolved_inner =
  r_model :: string
  r_base_url :: "string option"
  r_api_key :: string
  r_temperature :: "real option"

record resolved_model =
  r_name :: string
  r_provider :: string
  r_api_provider :: "string option"
  r_config :: resolved_inner

datatype resolved = FromStore resolved_model | FromStatic static_config string

text \<open>
  \<^verbatim>\<open>
  def get_model_config(choice):
      from settings.api_database import get_model_by_name
      db_model = get_model_by_name(choice)
      if db_model:
          api_keys = load_api_keys()
          api_provider = db_model.get("api_provider", "OPENROUTER")
          api_key = api_keys.get(f"{api_provider}_API_KEY", "")
          return {"name": ..., "provider": ..., "api_provider": api_provider,
                  "config": {"model": ..., "base_url": ..., "api_key": api_key,
                             "temperature": ...}}
      static_config = MODEL_CHOICES.get(choice, default_config)
      if static_config:
          return {**static_config, "api_provider": "OPENROUTER"}
      return {**default_config, "api_provider": "OPENROUTER"}
  \<close>
  The import statement runs at every call, before anything else.
\<close>

definition get_model_config ::
  "string \<Rightarrow> environ \<Rightarrow> secrets \<Rightarrow> string \<Rightarrow> app \<Rightarrow> (error + resolved) \<times> app" where
  "get_model_config OPENROUTER_API_KEY env sec choice a =
     (case import_from api_database ''get_model_by_name'' of
        Inl e \<Rightarrow> (Inl e, a)
      | Inr Other \<Rightarrow> (Inl TypeError, a)
      | Inr (ByName get_model_by_name) \<Rightarrow>
          (case get_model_by_name choice (store a) of
             Some db_model \<Rightarrow>
               (case load_api_keys env sec (session a) of
                  (Inl e, ss) \<Rightarrow> (Inl e, a\<lparr>session := ss\<rparr>)
                | (Inr api_keys, ss) \<Rightarrow>
                    (let api_provider = m_api_provider db_model;
                         api_key = keys_get api_keys (fmt api_provider @ ''_API_KEY'') ''''
                     in (Inr (FromStore
                               \<lparr>r_name = m_name db_model,
                                r_provider = m_provider db_model,
                                r_api_provider = api_provider,
                                r_config = \<lparr>r_model = cfg_model (m_config db_model),
                                            r_base_url = cfg_base_url (m_config db_model),
                                            r_api_key = api_key,
                                            r_temperature =
                                              cfg_temperature (m_config db_model)\<rparr>\<rparr>),
                         a\<lparr>session := ss\<rparr>)))
           | None \<Rightarrow>
               (let static_config =
                      (case map_of (MODEL_CHOICES OPENROUTER_API_KEY) choice of
                         None \<Rightarrow> default_config OPENROUTER_API_KEY
                       | Some c \<Rightarrow> c)
                in (Inr (FromStatic static_config ''OPENROUTER''), a))))"

subsection \<open>Notions used in the statements\<close>

text \<open>The store after the insert of a new row.\<close>

definition inserted :: "time \<Rightarrow> string \<Rightarrow> string \<Rightarrow> string \<Rightarrow> string option \<Rightarrow> real option \<Rightarrow> string option \<Rightarrow> db \<Rightarrow> db" where
  "inserted now nm p mid burl temp aprov d =
     \<lparr>custom_models = custom_models d @
         [\<lparr>col_id = next_id d, col_name = nm, col_provider = p,
           col_model_id = mid, col_base_url = burl, col_temperature = temp,
           col_api_provider = aprov, col_created_at = now, col_updated_at = now\<rparr>],
      seq = next_id d\<rparr>"

text \<open>A row after an \<^verbatim>\<open>UPDATE\<close> that sets the supplied columns and the time of update.\<close>

definition updated_row :: "time \<Rightarrow> string option \<Rightarrow> string option \<Rightarrow> string option \<Rightarrow> real option
     \<Rightarrow> string option \<Rightarrow> row \<Rightarrow> row" where
  "updated_row now mid prov burl temp aprov r =
     r\<lparr>col_model_id := (case mid of None \<Rightarrow> col_model_id r | Some v \<Rightarrow> v),
       col_provider := (case prov of None \<Rightarrow> col_provider r | Some v \<Rightarrow> v),
       col_base_url := (case burl of None \<Rightarrow> col_base_url r | Some v \<Rightarrow> Some v),
       col_temperature := (case temp of None \<Rightarrow> col_temperature r | Some v \<Rightarrow> Some v),
       col_api_provider := (case aprov of None \<Rightarrow> col_api_provider r | Some v \<Rightarrow> Some v),
       col_updated_at := now\<rparr>"

text \<open>
  A sequence of calls run one after the other: each result with the state it leaves.
\<close>

fun trace :: "('s \<Rightarrow> 'r \<times> 's) list \<Rightarrow> 's \<Rightarrow> ('r \<times> 's) list" where
  "trace [] s = []"
| "trace (f # fs) s = f s # trace fs (snd (f s))"

text \<open>Rows for the examples.\<close>

definition team_row :: row where
  "team_row = \<lparr>col_id = 1, col_name = ''TeamGPT'', col_provider = ''OpenAIChatCompletionClient'',
      col_model_id = ''openai/gpt-4o'', col_base_url = Some ''https://openrouter.ai/api/v1'',
      col_temperature = Some 0.2, col_api_provider = Some ''OPENAI'', col_created_at = 5,
      col_updated_at = 5\<rparr>"

definition other_row :: row where
  "other_row = \<lparr>col_id = 2, col_name = ''Old1'', col_provider = ''OpenAIChatCompletionClient'',
      col_model_id = ''x'', col_base_url = None,
      col_temperature = None, col_api_provider = Some ''OPENROUTER'', col_created_at = 6,
      col_updated_at = 6\<rparr>"

text \<open>
  A create call with a fixed name, of the store and of the manager, as a function of
  its other arguments; nothing fails.
\<close>

definition create ::
  "string \<Rightarrow> time \<times> string \<times> string \<times> string option \<times> real option \<times> string option
     \<Rightarrow> db \<Rightarrow> (error + bool) \<times> db" where
  "create nm = (\<lambda>(now, mid, prov, burl, temp, aprov).
      db_add_custom_model NoFault now nm mid (Some prov) burl temp aprov)"

definition register ::
  "string \<Rightarrow> time \<times> string \<times> string \<times> string \<times> real \<times> string \<times> string
     \<Rightarrow> app \<Rightarrow> (error + bool) \<times> app" where
  "register nm = (\<lambda>(now, prov, mid, burl, temp, aprov, custom_api_key).
      add_custom_model NoFault now nm prov mid burl temp aprov custom_api_key)"

definition new_row :: row where
  "new_row = \<lparr>col_id = 2, col_name = ''Old1'', col_provider = ''p'',
      col_model_id = ''x'', col_base_url = None,
      col_temperature = None, col_api_provider = None, col_created_at = 6,
      col_updated_at = 6\<rparr>"

definition registered_row :: row where
  "registered_row = \<lparr>col_id = 2, col_name = ''Old1'', col_provider = ''p'',
      col_model_id = ''x'', col_base_url = Some ''https://openrouter.ai/api/v1'',
      col_temperature = Some 0.2, col_api_provider = Some ''OPENROUTER'', col_created_at = 6,
      col_updated_at = 6\<rparr>"

definition sample_app :: app where
  "sample_app = \<lparr>store = \<lparr>custom_models = [team_row], seq = 1\<rparr>,
      session = \<lparr>ss_api_keys = None, ss_custom_models = Some [row_dict team_row]\<rparr>,
      files = Map.empty\<rparr>"

text \<open>
  What one pass of the loop of \<^verbatim>\<open>migrate_from_json\<close> does with a record: skip it, raise,
  or call \<^verbatim>\<open>add_custom_model\<close> with these arguments.
\<close>

datatype action =
    Skip
  | Raise error
  | Insert string string "string option" "string option" "real option" "string option"

definition action_of :: "json_model \<Rightarrow> action" where
  "action_of m =
     (case dict_get (key_name m) (Some '''') of
        None \<Rightarrow> Skip
      | Some nm \<Rightarrow>
          if nm = '''' then Skip
          else (case dict_get (key_config m) (Some empty_config) of
                  None \<Rightarrow> Raise AttributeError
                | Some cfg \<Rightarrow>
                   (case dict_get (key_model cfg) None of
                      None \<Rightarrow> Skip
                    | Some mid \<Rightarrow>
                        if mid = '''' then Skip
                        else Insert nm mid
                               (dict_get (key_provider m) (Some default_provider))
                               (dict_get (key_base_url cfg) (Some default_base_url))
                               (dict_get (key_temperature cfg) (Some default_temperature))
                               (dict_get (key_api_provider m) (Some default_api_provider)))))"

text \<open>The columns of a row that a caller chooses: all but the id and the timestamps.\<close>

definition profile ::
  "row \<Rightarrow> string \<times> string \<times> string \<times> string option \<times> real option \<times> string option" where
  "profile r = (col_name r, col_provider r, col_model_id r, col_base_url r, col_temperature r,
                col_api_provider r)"

text \<open>A legacy record and the row it becomes.\<close>

definition old1 :: json_model where
  "old1 = \<lparr>key_name = Val ''Old1'', key_provider = Absent,
            key_config = Val \<lparr>key_model = Val ''x'', key_temperature = Absent,
                              key_base_url = Absent\<rparr>,
            key_api_provider = Absent\<rparr>"

definition old1_row :: row where
  "old1_row = \<lparr>col_id = 1, col_name = ''Old1'', col_provider = ''OpenAIChatCompletionClient'',
      col_model_id = ''x'', col_base_url = Some ''https://openrouter.ai/api/v1'',
      col_temperature = Some 0.2, col_api_provider = Some ''OPENROUTER'', col_created_at = 6,
      col_updated_at = 6\<rparr>"

text \<open>An environment for the examples and the dictionary of keys it gives.\<close>

definition sample_env :: environ where
  "sample_env = [''GEMINI_API_KEY'' \<mapsto> ''g'', ''OPENROUTER_API_KEY'' \<mapsto> ''o'']"

definition sample_keys :: api_keys where
  "sample_keys = [(''OPENAI_API_KEY'', ''''), (''DEEPSEEK_API_KEY'', ''''),
                  (''GEMINI_API_KEY'', ''g''), (''OPENROUTER_API_KEY'', ''o''),
                  (''GROQ_API_KEY'', ''''), (''GROK_API_KEY'', '''')]"


section \<open>Properties\<close>

subsection \<open>Credential lookup order\<close>

lemma load_keys_map:
  "load_keys env sec ks =
     Inr (map (\<lambda>k. (k, case get_secret env sec k '''' of Inr v \<Rightarrow> v | Inl e \<Rightarrow> '''')) ks)"
  by (induction ks) (auto simp: get_secret_def Let_def split: sum.splits)

text \<open>
  C5. For every credential key, \<^verbatim>\<open>_get_secret\<close> returns the environment variable of
  that name when it is set and not empty; otherwise the entry of the secrets store when
  there is one; otherwise the empty string. With both sources set the environment wins,
  no lookup raises, and the dictionary of \<^verbatim>\<open>load_api_keys\<close> holds exactly these values for
  its six keys.
\<close>

theorem get_secret_lookup_order:
  "(\<forall>v. env key = Some v \<and> v \<noteq> '''' \<longrightarrow> get_secret env sec key '''' = Inr v)
   \<and> (\<forall>m s. (env key = None \<or> env key = Some '''') \<and> sec = Some m \<and> m key = Some s
         \<longrightarrow> get_secret env sec key '''' = Inr s)
   \<and> ((env key = None \<or> env key = Some '''')
        \<and> (sec = None \<or> (\<exists>m. sec = Some m \<and> m key = None))
         \<longrightarrow> get_secret env sec key '''' = Inr '''')
   \<and> (\<exists>v. get_secret env sec key '''' = Inr v)
   \<and> (\<exists>kvs. base_keys env sec = Inr kvs \<and> map fst kvs = api_key_names
         \<and> (\<forall>k \<in> set api_key_names. map_of kvs k = Some (projr (get_secret env sec k ''''))))"
proof -
  have total: "\<exists>v. get_secret env sec k '''' = Inr v" for k
    by (auto simp: get_secret_def Let_def split: sum.splits)
  have keys: "\<exists>kvs. base_keys env sec = Inr kvs \<and> map fst kvs = api_key_names
         \<and> (\<forall>k \<in> set api_key_names. map_of kvs k = Some (projr (get_secret env sec k '''')))"
  proof -
    let ?f = "\<lambda>k. case get_secret env sec k '''' of Inr v \<Rightarrow> v | Inl e \<Rightarrow> ''''"
    have f: "?f k = projr (get_secret env sec k '''')" for k
      using total [of k] by auto
    have "map_of (map (\<lambda>k. (k, ?f k)) ks) k = Some (?f k)" if "k \<in> set ks" for k ks
      using that by (induction ks) auto
    then show ?thesis
      unfolding base_keys_def load_keys_map
      by (simp add: comp_def f)
  qed
  show ?thesis
    using total keys
    by (auto simp: get_secret_def environ_get_def st_secrets_get_def Let_def)
qed

theorem get_secret_lookup_order_witness:
  "get_secret [''GROQ_API_KEY'' \<mapsto> ''from-env''] (Some [''GROQ_API_KEY'' \<mapsto> ''from-store''])
      ''GROQ_API_KEY'' '''' = Inr ''from-env''
   \<and> get_secret Map.empty (Some [''GROQ_API_KEY'' \<mapsto> ''from-store''])
      ''GROQ_API_KEY'' '''' = Inr ''from-store''
   \<and> get_secret [''GROQ_API_KEY'' \<mapsto> ''''] None ''GROQ_API_KEY'' '''' = Inr ''''"
  using get_secret_lookup_order
          [of "[''GROQ_API_KEY'' \<mapsto> ''from-env'']" "''GROQ_API_KEY''"
              "Some [''GROQ_API_KEY'' \<mapsto> ''from-store'']"]
        get_secret_lookup_order
          [of "Map.empty" "''GROQ_API_KEY''" "Some [''GROQ_API_KEY'' \<mapsto> ''from-store'']"]
        get_secret_lookup_order
          [of "[''GROQ_API_KEY'' \<mapsto> '''']" "''GROQ_API_KEY''" None]
  by simp

subsection \<open>The store functions when nothing fails\<close>

lemma get_connection_NoFault:
  "get_connection NoFault body d =
     (case body (connect d) of Inl e \<Rightarrow> (Inl e, d) | Inr (v, c) \<Rightarrow> (Inr v, pending c))"
  by (auto simp: get_connection_def connect_def commit_def rollback_def Let_def split: sum.splits prod.splits)

lemma db_add_NoFault:
  "db_add_custom_model NoFault now nm mid prov burl temp aprov d =
     (case prov of
        None \<Rightarrow> (Inr False, d)
      | Some p \<Rightarrow>
          if nm \<in> set (map col_name (custom_models d)) then (Inr False, d)
          else (Inr True, inserted now nm p mid burl temp aprov d))"
  by (auto simp: db_add_custom_model_def init_database_def get_connection_NoFault
      execute_insert_def connect_def inserted_def split: option.splits error.splits)

lemma db_add_unchanged_or_inserted:
  "db_add_custom_model flt now nm mid prov burl temp aprov d = (r, d') \<Longrightarrow>
     (r \<noteq> Inr True \<and> d' = d) \<or> (r = Inr True \<and> nm \<notin> set (map col_name (custom_models d)) \<and> (\<exists>p. prov = Some p \<and> d' = inserted now nm p mid burl temp aprov d))"
  by (auto simp: db_add_custom_model_def init_database_def get_connection_def commit_def rollback_def Let_def
      execute_insert_def connect_def inserted_def split: option.splits error.splits fault.splits sum.splits if_splits)

lemma update_no_fields:
  "update_custom_model NoFault now nm None None None None None d = (Inr True, d)"
  by (simp add: update_custom_model_def init_database_def get_connection_NoFault supplied_def connect_def)

lemma fold_assign:
  "fold (assign now) ((supplied mid SetModelId @ supplied prov SetProvider @
       supplied burl SetBaseUrl @ supplied temp SetTemperature @
       supplied aprov SetApiProvider) @ [SetUpdatedAt]) r = updated_row now mid prov burl temp aprov r"
  by (cases mid; cases prov; cases burl; cases temp; cases aprov) (simp_all add: supplied_def updated_row_def)

lemma supplied_empty:
  "(supplied mid SetModelId @ supplied prov SetProvider @
       supplied burl SetBaseUrl @ supplied temp SetTemperature @
       supplied aprov SetApiProvider = []) \<longleftrightarrow> (mid = None \<and> prov = None \<and> burl = None \<and> temp = None \<and> aprov = None)"
  by (auto simp: supplied_def split: option.splits)

lemma update_NoFault:
  "update_custom_model NoFault now nm mid prov burl temp aprov d =
     (if mid = None \<and> prov = None \<and> burl = None \<and> temp = None \<and> aprov = None then (Inr True, d)
      else (Inr (nm \<in> set (map col_name (custom_models d))),
            d\<lparr>custom_models := map (\<lambda>r. if col_name r = nm then updated_row now mid prov burl temp aprov r else r) (custom_models d)\<rparr>))"
proof -
  have len: "(0 < length (filter (\<lambda>r. col_name r = nm) rs)) = (nm \<in> col_name ` set rs)" for rs :: "row list"
    by (induction rs) auto
  show ?thesis
    unfolding update_custom_model_def init_database_def get_connection_NoFault Let_def supplied_empty
    using len [of "custom_models d"]
    by (simp add: execute_update_def connect_def fold_assign del: fold_append append_assoc)
qed

lemma map_unchanged: "(\<And>x. x \<in> set xs \<Longrightarrow> f x = x) \<Longrightarrow> map f xs = xs"
  by (induction xs) auto

lemma update_absent:
  "nm \<notin> set (map col_name (custom_models d)) \<Longrightarrow>
   \<not> (mid = None \<and> prov = None \<and> burl = None \<and> temp = None \<and> aprov = None) \<Longrightarrow>
   update_custom_model NoFault now nm mid prov burl temp aprov d = (Inr False, d)"
proof -
  assume a: "nm \<notin> set (map col_name (custom_models d))"
  have "map (\<lambda>r. if col_name r = nm then updated_row now mid prov burl temp aprov r else r) (custom_models d) = custom_models d"
    by (rule map_unchanged) (use a in auto)
  moreover assume "\<not> (mid = None \<and> prov = None \<and> burl = None \<and> temp = None \<and> aprov = None)"
  ultimately show ?thesis using a by (simp add: update_NoFault)
qed

subsection \<open>Partial update\<close>

text \<open>
  C7. An update that supplies some fields of an existing profile changes those fields and
  \<^verbatim>\<open>updated_at\<close> of the row of that name and nothing else: the other columns of the row,
  the other rows and the id counter stay. It returns \<^verbatim>\<open>False\<close> and changes nothing when
  fields are supplied and no row has the name; with no field supplied it returns
  \<^verbatim>\<open>True\<close> and changes nothing, whether a row has the name or not.
\<close>

theorem update_changes_only_supplied:
  "update_custom_model NoFault now nm None None None None None d = (Inr True, d)
   \<and> (\<not> (mid = None \<and> prov = None \<and> burl = None \<and> temp = None \<and> aprov = None)
        \<and> nm \<notin> set (map col_name (custom_models d))
       \<longrightarrow> update_custom_model NoFault now nm mid prov burl temp aprov d = (Inr False, d))
   \<and> (\<not> (mid = None \<and> prov = None \<and> burl = None \<and> temp = None \<and> aprov = None)
        \<and> nm \<in> set (map col_name (custom_models d))
       \<longrightarrow> (\<exists>d'. update_custom_model NoFault now nm mid prov burl temp aprov d = (Inr True, d')
              \<and> seq d' = seq d
              \<and> length (custom_models d') = length (custom_models d)
              \<and> (\<forall>i < length (custom_models d).
                    let r = custom_models d ! i; r' = custom_models d' ! i in
                    if col_name r = nm then
                      col_id r' = col_id r \<and> col_name r' = col_name r
                      \<and> col_created_at r' = col_created_at r
                      \<and> col_updated_at r' = now
                      \<and> col_model_id r' = (case mid of None \<Rightarrow> col_model_id r | Some v \<Rightarrow> v)
                      \<and> col_provider r' = (case prov of None \<Rightarrow> col_provider r | Some v \<Rightarrow> v)
                      \<and> col_base_url r' = (case burl of None \<Rightarrow> col_base_url r | Some v \<Rightarrow> Some v)
                      \<and> col_temperature r' =
                          (case temp of None \<Rightarrow> col_temperature r | Some v \<Rightarrow> Some v)
                      \<and> col_api_provider r' =
                          (case aprov of None \<Rightarrow> col_api_provider r | Some v \<Rightarrow> Some v)
                    else r' = r)))"
proof (intro conjI impI)
  show "update_custom_model NoFault now nm None None None None None d = (Inr True, d)"
    by (rule update_no_fields)
next
  assume "\<not> (mid = None \<and> prov = None \<and> burl = None \<and> temp = None \<and> aprov = None)
        \<and> nm \<notin> set (map col_name (custom_models d))"
  then show "update_custom_model NoFault now nm mid prov burl temp aprov d = (Inr False, d)"
    using update_absent by blast
next
  assume a: "\<not> (mid = None \<and> prov = None \<and> burl = None \<and> temp = None \<and> aprov = None)
        \<and> nm \<in> set (map col_name (custom_models d))"
  let ?d' = "d\<lparr>custom_models := map (\<lambda>r. if col_name r = nm then updated_row now mid prov burl temp aprov r else r) (custom_models d)\<rparr>"
  from a have n: "\<not> (mid = None \<and> prov = None \<and> burl = None \<and> temp = None \<and> aprov = None)"
    and m: "nm \<in> set (map col_name (custom_models d))" by blast+
  have "update_custom_model NoFault now nm mid prov burl temp aprov d = (Inr True, ?d')"
    by (simp only: update_NoFault n m if_False)
  moreover have "seq ?d' = seq d" "length (custom_models ?d') = length (custom_models d)"
    by simp_all
  moreover have "\<forall>i < length (custom_models d).
                    let r = custom_models d ! i; r' = custom_models ?d' ! i in
                    if col_name r = nm then
                      col_id r' = col_id r \<and> col_name r' = col_name r
                      \<and> col_created_at r' = col_created_at r
                      \<and> col_updated_at r' = now
                      \<and> col_model_id r' = (case mid of None \<Rightarrow> col_model_id r | Some v \<Rightarrow> v)
                      \<and> col_provider r' = (case prov of None \<Rightarrow> col_provider r | Some v \<Rightarrow> v)
                      \<and> col_base_url r' = (case burl of None \<Rightarrow> col_base_url r | Some v \<Rightarrow> Some v)
                      \<and> col_temperature r' =
                          (case temp of None \<Rightarrow> col_temperature r | Some v \<Rightarrow> Some v)
                      \<and> col_api_provider r' =
                          (case aprov of None \<Rightarrow> col_api_provider r | Some v \<Rightarrow> Some v)
                    else r' = r"
    by (simp add: Let_def updated_row_def)
  ultimately show "\<exists>d'. update_custom_model NoFault now nm mid prov burl temp aprov d = (Inr True, d')
              \<and> seq d' = seq d
              \<and> length (custom_models d') = length (custom_models d)
              \<and> (\<forall>i < length (custom_models d).
                    let r = custom_models d ! i; r' = custom_models d' ! i in
                    if col_name r = nm then
                      col_id r' = col_id r \<and> col_name r' = col_name r
                      \<and> col_created_at r' = col_created_at r
                      \<and> col_updated_at r' = now
                      \<and> col_model_id r' = (case mid of None \<Rightarrow> col_model_id r | Some v \<Rightarrow> v)
                      \<and> col_provider r' = (case prov of None \<Rightarrow> col_provider r | Some v \<Rightarrow> v)
                      \<and> col_base_url r' = (case burl of None \<Rightarrow> col_base_url r | Some v \<Rightarrow> Some v)
                      \<and> col_temperature r' =
                          (case temp of None \<Rightarrow> col_temperature r | Some v \<Rightarrow> Some v)
                      \<and> col_api_provider r' =
                          (case aprov of None \<Rightarrow> col_api_provider r | Some v \<Rightarrow> Some v)
                    else r' = r)"
    by blast
qed

theorem update_changes_only_supplied_witness:
  "update_custom_model NoFault 9 ''TeamGPT'' None None None (Some 0.7) None
       \<lparr>custom_models = [team_row, other_row], seq = 2\<rparr>
     = (Inr True, \<lparr>custom_models = [team_row\<lparr>col_temperature := Some 0.7, col_updated_at := 9\<rparr>, other_row], seq = 2\<rparr>)
   \<and> update_custom_model NoFault 9 ''NoSuchProfile'' None None None (Some 0.7) None
       \<lparr>custom_models = [team_row, other_row], seq = 2\<rparr>
     = (Inr False, \<lparr>custom_models = [team_row, other_row], seq = 2\<rparr>)"
proof -
  let ?d = "\<lparr>custom_models = [team_row, other_row], seq = 2\<rparr>"
  note t = update_changes_only_supplied [of 9 "''TeamGPT''" ?d None None None "Some 0.7" None]
  note u = update_changes_only_supplied [of 9 "''NoSuchProfile''" ?d None None None "Some 0.7" None]
  have in_d: "''TeamGPT'' \<in> set (map col_name (custom_models ?d))"
    by (simp add: team_row_def)
  have out_d: "''NoSuchProfile'' \<notin> set (map col_name (custom_models ?d))"
    by (simp add: team_row_def other_row_def)
  from t in_d obtain d' where
    d': "update_custom_model NoFault 9 ''TeamGPT'' None None None (Some 0.7) None ?d = (Inr True, d')"
    by auto
  have "d' = \<lparr>custom_models = [team_row\<lparr>col_temperature := Some 0.7, col_updated_at := 9\<rparr>, other_row], seq = 2\<rparr>"
    using d' by (simp add: update_NoFault updated_row_def team_row_def other_row_def)
  with d' u out_d show ?thesis by simp
qed

subsection \<open>Faults during a mutation\<close>

text \<open>
  C2, as stated, fails: a fault while the \<^verbatim>\<open>INSERT\<close> executes does not reach the caller
  of \<^verbatim>\<open>add_custom_model\<close> as an exception; the function returns \<^verbatim>\<open>False\<close>.
\<close>

theorem fault_is_returned_counterexample:
  "db_add_custom_model (ExecuteFault OperationalError) 7 ''New'' ''m'' (Some ''p'') None None None
       \<lparr>custom_models = [], seq = 0\<rparr> = (Inr False, \<lparr>custom_models = [], seq = 0\<rparr>)
   \<and> fst (db_add_custom_model (ExecuteFault OperationalError) 7 ''New'' ''m'' (Some ''p'') None None None
       \<lparr>custom_models = [], seq = 0\<rparr>) \<noteq> Inl OperationalError"
  by (simp add: db_add_custom_model_def init_database_def get_connection_def commit_def
      rollback_def connect_def execute_insert_def)

lemma get_connection_raises:
  "body (connect d) = Inl e \<Longrightarrow> get_connection flt body d = (Inl e, d)"
  by (simp add: get_connection_def connect_def rollback_def)

lemma get_connection_commit_fault:
  "body (connect d) = Inr (v, c) \<Longrightarrow> persisted c = d \<Longrightarrow>
     get_connection (CommitFault e) body d = (Inl e, d)"
  by (simp add: get_connection_def commit_def rollback_def)

lemma db_add_fault:
  "db_add_custom_model (ExecuteFault e) now nm mid prov burl temp aprov d = (Inr False, d)"
  "db_add_custom_model (CommitFault e) now nm mid prov burl temp aprov d = (Inr False, d)"
  "db_add_custom_model (InitFault e) now nm mid prov burl temp aprov d = (Inl e, d)"
  by (auto simp: db_add_custom_model_def init_database_def get_connection_def commit_def
      rollback_def connect_def execute_insert_def Let_def split: option.splits error.splits)

lemma db_delete_fault:
  "db_delete_custom_model (ExecuteFault e) nm d = (Inr False, d)"
  "db_delete_custom_model (CommitFault e) nm d = (Inr False, d)"
  "db_delete_custom_model (InitFault e) nm d = (Inl e, d)"
  by (auto simp: db_delete_custom_model_def init_database_def get_connection_def commit_def
      rollback_def connect_def execute_delete_def Let_def split: option.splits error.splits)

lemma update_fault:
  "update_custom_model (ExecuteFault e) now nm mid prov burl temp aprov d =
     (Inr (mid = None \<and> prov = None \<and> burl = None \<and> temp = None \<and> aprov = None), d)"
  "update_custom_model (CommitFault e) now nm mid prov burl temp aprov d = (Inr False, d)"
  "update_custom_model (InitFault e) now nm mid prov burl temp aprov d = (Inl e, d)"
  unfolding update_custom_model_def init_database_def get_connection_def Let_def supplied_empty
  by (auto simp: commit_def rollback_def connect_def execute_update_def)

text \<open>
  C2 (as amended). A fault while the statement of create, update or delete executes, or at
  commit, makes \<^verbatim>\<open>get_connection\<close> roll back and raise again, so the store is exactly as
  before the call; the store function catches that exception and returns \<^verbatim>\<open>False\<close>. A
  fault in \<^verbatim>\<open>init_database\<close>, which runs before the \<^verbatim>\<open>try\<close>, reaches the caller as
  an exception, with the store unchanged too.
\<close>

theorem fault_rolls_back:
  "(body (connect d) = Inl e \<longrightarrow> get_connection flt body d = (Inl e, d))
   \<and> (body (connect d) = Inr (v, c) \<and> persisted c = d
        \<longrightarrow> get_connection (CommitFault e) body d = (Inl e, d))
   \<and> (flt = ExecuteFault e \<or> flt = CommitFault e \<longrightarrow>
        db_add_custom_model flt now nm mid prov burl temp aprov d = (Inr False, d)
        \<and> db_delete_custom_model flt nm d = (Inr False, d))
   \<and> (flt = CommitFault e
        \<or> flt = ExecuteFault e
          \<and> \<not> (mid' = None \<and> prov' = None \<and> burl = None \<and> temp = None \<and> aprov = None) \<longrightarrow>
        update_custom_model flt now nm mid' prov' burl temp aprov d = (Inr False, d))
   \<and> (flt = InitFault e \<longrightarrow>
        db_add_custom_model flt now nm mid prov burl temp aprov d = (Inl e, d)
        \<and> db_delete_custom_model flt nm d = (Inl e, d)
        \<and> update_custom_model flt now nm mid' prov' burl temp aprov d = (Inl e, d))"
  using get_connection_raises [of body d e flt] get_connection_commit_fault [of body d v c e]
  by (auto simp: db_add_fault db_delete_fault update_fault)

theorem fault_rolls_back_witness:
  "db_add_custom_model (CommitFault OperationalError) 7 ''New'' ''m'' (Some ''p'') None None None
       \<lparr>custom_models = [team_row], seq = 1\<rparr> = (Inr False, \<lparr>custom_models = [team_row], seq = 1\<rparr>)
   \<and> db_delete_custom_model (ExecuteFault OperationalError) ''TeamGPT''
       \<lparr>custom_models = [team_row], seq = 1\<rparr> = (Inr False, \<lparr>custom_models = [team_row], seq = 1\<rparr>)
   \<and> update_custom_model (ExecuteFault OperationalError) 7 ''TeamGPT'' None None None (Some 0.7) None
       \<lparr>custom_models = [team_row], seq = 1\<rparr> = (Inr False, \<lparr>custom_models = [team_row], seq = 1\<rparr>)
   \<and> update_custom_model (InitFault OperationalError) 7 ''TeamGPT'' None None None (Some 0.7) None
       \<lparr>custom_models = [team_row], seq = 1\<rparr>
        = (Inl OperationalError, \<lparr>custom_models = [team_row], seq = 1\<rparr>)
   \<and> get_connection NoFault (execute_delete (ExecuteFault OperationalError) ''TeamGPT'')
       \<lparr>custom_models = [team_row], seq = 1\<rparr>
        = (Inl OperationalError, \<lparr>custom_models = [team_row], seq = 1\<rparr>)"
proof -
  let ?d = "\<lparr>custom_models = [team_row], seq = 1\<rparr>"
  let ?c = "\<lparr>persisted = ?d, pending = \<lparr>custom_models = [], seq = 1\<rparr>\<rparr>"
  let ?raise = "execute_delete (ExecuteFault OperationalError) ''TeamGPT''"
  note r = fault_rolls_back [where body = ?raise and v = 1 and c = ?c
          and d = ?d and e = OperationalError and flt = NoFault
          and now = 7 and nm = "''New''" and mid = "''m''" and prov = "Some ''p''"
          and mid' = None and prov' = None and burl = None and temp = None and aprov = None]
  note a = fault_rolls_back [where body = ?raise and v = 1 and c = ?c
          and d = ?d and e = OperationalError and flt = "CommitFault OperationalError"
          and now = 7 and nm = "''New''" and mid = "''m''" and prov = "Some ''p''"
          and mid' = None and prov' = None and burl = None and temp = None and aprov = None]
  note b = fault_rolls_back [where body = ?raise and v = 1 and c = ?c
          and d = ?d and e = OperationalError and flt = "ExecuteFault OperationalError"
          and now = 7 and nm = "''TeamGPT''" and mid = "''m''" and prov = "Some ''p''"
          and mid' = None and prov' = None
          and burl = None and temp = "Some 0.7" and aprov = None]
  note c = fault_rolls_back [where body = ?raise and v = 1 and c = ?c
          and d = ?d and e = OperationalError and flt = "InitFault OperationalError"
          and now = 7 and nm = "''TeamGPT''" and mid = "''m''" and prov = "Some ''p''"
          and mid' = None and prov' = None
          and burl = None and temp = "Some 0.7" and aprov = None]
  have raised: "?raise (connect ?d) = Inl OperationalError"
    by (simp add: execute_delete_def)
  show ?thesis
    using a b c r raised by simp
qed

subsection \<open>Uniqueness of the name\<close>

lemma trace_stuck:
  "\<forall>f \<in> set fs. f s = (r, s) \<Longrightarrow> trace fs s = replicate (length fs) (r, s)"
  by (induction fs) auto

lemma find_name_iff:
  "(find (\<lambda>r. col_name r = nm) rs \<noteq> None) = (nm \<in> set (map col_name rs))"
  by (induction rs) auto

lemma db_model_exists_iff:
  "db_model_exists nm d = (nm \<in> set (map col_name (custom_models d)))"
  unfolding db_model_exists_def by (rule find_name_iff)

lemma names_inserted:
  "set (map col_name (custom_models (inserted now nm p mid burl temp aprov d)))
     = insert nm (set (map col_name (custom_models d)))"
  by (simp add: inserted_def)

lemma distinct_inserted:
  "nm \<notin> set (map col_name (custom_models d)) \<Longrightarrow>
   distinct (map col_name (custom_models (inserted now nm p mid burl temp aprov d)))
     = distinct (map col_name (custom_models d))"
  by (simp add: inserted_def)

lemma create_first:
  "nm \<notin> set (map col_name (custom_models d)) \<Longrightarrow>
   create nm (now, mid, prov, burl, temp, aprov) d
     = (Inr True, inserted now nm prov mid burl temp aprov d)"
  by (simp add: create_def db_add_NoFault)

lemma create_again:
  "nm \<in> set (map col_name (custom_models d)) \<Longrightarrow> create nm x d = (Inr False, d)"
  by (cases x) (simp add: create_def db_add_NoFault)

lemma register_first:
  "nm \<notin> set (map col_name (custom_models (store a))) \<Longrightarrow>
   register nm (now, prov, mid, burl, temp, aprov, k) a
     = (Inr True,
        a\<lparr>store := inserted now nm prov mid
                     (Some (if burl \<noteq> '''' then burl else default_base_url)) (Some temp)
                     (Some (if aprov \<noteq> '''' then aprov else default_api_provider)) (store a),
          session := drop_custom_models (session a)\<rparr>)"
  by (simp add: register_def add_custom_model_def db_model_exists_iff db_add_NoFault)

lemma register_again:
  "nm \<in> set (map col_name (custom_models (store a))) \<Longrightarrow> register nm y a = (Inr False, a)"
  by (cases y) (simp add: register_def add_custom_model_def db_model_exists_iff)

text \<open>
  C3. Of a sequence of create calls with one name, on a store that does not hold the
  name yet, the first returns \<^verbatim>\<open>True\<close> and every later one returns \<^verbatim>\<open>False\<close> and leaves
  the store as the first call left it; the names of the store stay pairwise distinct. This
  holds for \<^verbatim>\<open>add_custom_model\<close> of api\_database.py and for \<^verbatim>\<open>add_custom_model\<close> of
  api\_manager.py alike.
\<close>

theorem create_same_name_once:
  assumes "nm \<notin> set (map col_name (custom_models d))"
  shows "(\<exists>d1. trace (map (create nm) (x # xs)) d
               = (Inr True, d1) # replicate (length xs) (Inr False, d1)
             \<and> nm \<in> set (map col_name (custom_models d1))
             \<and> (distinct (map col_name (custom_models d))
                  \<longrightarrow> distinct (map col_name (custom_models d1))))
         \<and> (store a = d \<longrightarrow>
             (\<exists>a1. trace (map (register nm) (y # ys)) a
               = (Inr True, a1) # replicate (length ys) (Inr False, a1)
             \<and> nm \<in> set (map col_name (custom_models (store a1)))
             \<and> (distinct (map col_name (custom_models d))
                  \<longrightarrow> distinct (map col_name (custom_models (store a1))))))"
proof (intro conjI impI)
  obtain now mid prov burl temp aprov where x: "x = (now, mid, prov, burl, temp, aprov)"
    by (cases x) auto
  let ?d1 = "inserted now nm prov mid burl temp aprov d"
  have first: "create nm x d = (Inr True, ?d1)"
    using assms by (simp add: x create_first)
  have held: "nm \<in> set (map col_name (custom_models ?d1))"
    by (simp add: inserted_def)
  have "trace (map (create nm) xs) ?d1 = replicate (length (map (create nm) xs)) (Inr False, ?d1)"
    by (rule trace_stuck) (use held create_again in auto)
  then have "trace (map (create nm) (x # xs)) d
               = (Inr True, ?d1) # replicate (length xs) (Inr False, ?d1)"
    by (simp add: first)
  moreover have "distinct (map col_name (custom_models d))
                  \<longrightarrow> distinct (map col_name (custom_models ?d1))"
    using assms by (simp add: distinct_inserted)
  ultimately show "\<exists>d1. trace (map (create nm) (x # xs)) d
               = (Inr True, d1) # replicate (length xs) (Inr False, d1)
             \<and> nm \<in> set (map col_name (custom_models d1))
             \<and> (distinct (map col_name (custom_models d))
                  \<longrightarrow> distinct (map col_name (custom_models d1)))"
    using held by blast
next
  assume a: "store a = d"
  obtain now prov mid burl temp aprov k where y: "y = (now, prov, mid, burl, temp, aprov, k)"
    by (cases y) auto
  let ?d1 = "inserted now nm prov mid
                     (Some (if burl \<noteq> '''' then burl else default_base_url)) (Some temp)
                     (Some (if aprov \<noteq> '''' then aprov else default_api_provider)) (store a)"
  let ?a1 = "a\<lparr>store := ?d1, session := drop_custom_models (session a)\<rparr>"
  have first: "register nm y a = (Inr True, ?a1)"
    using assms a by (simp add: y register_first)
  have held: "nm \<in> set (map col_name (custom_models (store ?a1)))"
    by (simp add: inserted_def)
  have "trace (map (register nm) ys) ?a1 = replicate (length (map (register nm) ys)) (Inr False, ?a1)"
    by (rule trace_stuck) (use held register_again in auto)
  then have "trace (map (register nm) (y # ys)) a
               = (Inr True, ?a1) # replicate (length ys) (Inr False, ?a1)"
    by (simp add: first)
  moreover have "distinct (map col_name (custom_models d))
                  \<longrightarrow> distinct (map col_name (custom_models (store ?a1)))"
    using assms a by (simp add: distinct_inserted)
  ultimately show "\<exists>a1. trace (map (register nm) (y # ys)) a
               = (Inr True, a1) # replicate (length ys) (Inr False, a1)
             \<and> nm \<in> set (map col_name (custom_models (store a1)))
             \<and> (distinct (map col_name (custom_models d))
                  \<longrightarrow> distinct (map col_name (custom_models (store a1))))"
    using held by blast
qed

theorem create_same_name_once_witness:
  "trace (map (create ''Old1'') [(6, ''x'', ''p'', None, None, None),
                                 (7, ''y'', ''q'', None, Some 0.5, None),
                                 (8, ''x'', ''p'', None, None, None)])
      \<lparr>custom_models = [team_row], seq = 1\<rparr>
    = [(Inr True, \<lparr>custom_models = [team_row, new_row], seq = 2\<rparr>),
       (Inr False, \<lparr>custom_models = [team_row, new_row], seq = 2\<rparr>),
       (Inr False, \<lparr>custom_models = [team_row, new_row], seq = 2\<rparr>)]
   \<and> trace (map (register ''Old1'') [(6, ''p'', ''x'', '''', 0.2, '''', ''''),
                                     (7, ''q'', ''y'', ''http://h'', 0.5, ''OPENAI'', '''')])
      sample_app
    = [(Inr True, sample_app\<lparr>store := \<lparr>custom_models = [team_row, registered_row], seq = 2\<rparr>,
                     session := \<lparr>ss_api_keys = None, ss_custom_models = None\<rparr>\<rparr>),
       (Inr False, sample_app\<lparr>store := \<lparr>custom_models = [team_row, registered_row], seq = 2\<rparr>,
                     session := \<lparr>ss_api_keys = None, ss_custom_models = None\<rparr>\<rparr>)]"
proof -
  let ?d = "\<lparr>custom_models = [team_row], seq = 1\<rparr>"
  let ?x = "(6::nat, ''x'', ''p'', None :: string option, None :: real option, None :: string option)"
  let ?xs = "[(7::nat, ''y'', ''q'', None :: string option, Some (0.5::real), None :: string option),
              (8, ''x'', ''p'', None, None, None)]"
  let ?y = "(6::nat, ''p'', ''x'', ''''::string, 0.2::real, ''''::string, ''''::string)"
  let ?ys = "[(7::nat, ''q'', ''y'', ''http://h'', 0.5::real, ''OPENAI'', ''''::string)]"
  have fresh: "''Old1'' \<notin> set (map col_name (custom_models ?d))"
    by (simp add: team_row_def)
  have st: "store sample_app = ?d"
    by (simp add: sample_app_def)
  note both = create_same_name_once [OF fresh, of ?x ?xs sample_app ?y ?ys]
  from both [THEN conjunct1] obtain d1 where
    t: "trace (map (create ''Old1'') (?x # ?xs)) ?d
          = (Inr True, d1) # replicate (length ?xs) (Inr False, d1)"
    by blast
  from both [THEN conjunct2, THEN mp, OF st] obtain a1 where
    u: "trace (map (register ''Old1'') (?y # ?ys)) sample_app
          = (Inr True, a1) # replicate (length ?ys) (Inr False, a1)"
    by blast
  from t have "create ''Old1'' ?x ?d = (Inr True, d1)"
    by simp
  then have d1: "d1 = \<lparr>custom_models = [team_row, new_row], seq = 2\<rparr>"
    by (auto simp add: create_def db_add_NoFault team_row_def new_row_def inserted_def next_id_def
        numeral_2_eq_2)
  have "''Old1'' \<notin> set (map col_name (custom_models (store sample_app)))"
    by (simp add: st team_row_def)
  from register_first [OF this, of 6 "''p''" "''x''" "''''" "0.2" "''''" "''''"] u
  have "a1 = sample_app\<lparr>store := inserted 6 ''Old1'' ''p'' ''x'' (Some default_base_url)
                  (Some 0.2) (Some default_api_provider) (store sample_app),
                session := drop_custom_models (session sample_app)\<rparr>"
    by simp
  also have "\<dots> = sample_app\<lparr>store := \<lparr>custom_models = [team_row, registered_row], seq = 2\<rparr>,
                     session := \<lparr>ss_api_keys = None, ss_custom_models = None\<rparr>\<rparr>"
    by (simp add: sample_app_def team_row_def registered_row_def inserted_def next_id_def
        drop_custom_models_def default_base_url_def default_api_provider_def numeral_2_eq_2)
  finally have a1: "a1 = sample_app\<lparr>store := \<lparr>custom_models = [team_row, registered_row], seq = 2\<rparr>,
                     session := \<lparr>ss_api_keys = None, ss_custom_models = None\<rparr>\<rparr>" .
  show ?thesis
    unfolding t u d1 a1 by simp
qed

subsection \<open>Migration\<close>

lemma migrate_loop_Cons:
  "migrate_loop w (m # ms) k d =
     (case action_of m of
        Skip \<Rightarrow> migrate_loop (\<lambda>i. w (Suc i)) ms k d
      | Raise e \<Rightarrow> (Inl e, d)
      | Insert nm mid prov burl temp aprov \<Rightarrow>
          (case db_add_custom_model (fst (w 0)) (snd (w 0)) nm mid prov burl temp aprov d of
             (Inl e, d') \<Rightarrow> (Inl e, d')
           | (Inr success, d') \<Rightarrow>
               migrate_loop (\<lambda>i. w (Suc i)) ms (if success then k + 1 else k) d'))"
  by (simp add: action_of_def Let_def split: option.splits)

lemma migrate_loop_names_mono:
  "migrate_loop w ms k d = (r, d1) \<Longrightarrow>
     set (map col_name (custom_models d)) \<subseteq> set (map col_name (custom_models d1))"
proof (induction ms arbitrary: w k d)
  case Nil
  then show ?case by simp
next
  case (Cons m ms)
  show ?case
  proof (cases "action_of m")
    case Skip
    with Cons show ?thesis by (simp add: migrate_loop_Cons del: migrate_loop.simps)
  next
    case (Raise e)
    with Cons.prems show ?thesis by (simp add: migrate_loop_Cons del: migrate_loop.simps)
  next
    case (Insert nm mid prov burl temp aprov)
    obtain res d' where add:
      "db_add_custom_model (fst (w 0)) (snd (w 0)) nm mid prov burl temp aprov d = (res, d')"
      by (cases "db_add_custom_model (fst (w 0)) (snd (w 0)) nm mid prov burl temp aprov d")
    from db_add_unchanged_or_inserted [OF add]
    have sub: "set (map col_name (custom_models d)) \<subseteq> set (map col_name (custom_models d'))"
      by (auto simp: inserted_def)
    show ?thesis
    proof (cases res)
      case (Inl e)
      with Cons.prems Insert add sub show ?thesis
        by (simp add: migrate_loop_Cons del: migrate_loop.simps)
    next
      case (Inr success)
      with Cons.prems Insert add
      have "migrate_loop (\<lambda>i. w (Suc i)) ms (if success then k + 1 else k) d' = (r, d1)"
        by (simp add: migrate_loop_Cons del: migrate_loop.simps)
      from Cons.IH [OF this] sub show ?thesis by blast
    qed
  qed
qed

lemma migrate_loop_again:
  assumes "\<forall>i. fst (w i) = NoFault" and "\<forall>i. fst (w' i) = NoFault"
    and "migrate_loop w ms k d = (r, d1)"
    and "set (map col_name (custom_models d1)) \<subseteq> set (map col_name (custom_models d2))"
  shows "migrate_loop w' ms k' d2 = ((case r of Inl e \<Rightarrow> Inl e | Inr n \<Rightarrow> Inr k'), d2)"
  using assms
proof (induction ms arbitrary: w w' k d)
  case Nil
  then show ?case by auto
next
  case (Cons m ms)
  have w0: "fst (w 0) = NoFault" "fst (w' 0) = NoFault"
    using Cons.prems by auto
  have ws: "\<forall>i. fst (w (Suc i)) = NoFault" "\<forall>i. fst (w' (Suc i)) = NoFault"
    using Cons.prems by auto
  show ?case
  proof (cases "action_of m")
    case Skip
    with Cons.prems have "migrate_loop (\<lambda>i. w (Suc i)) ms k d = (r, d1)"
      by (simp add: migrate_loop_Cons del: migrate_loop.simps)
    from Cons.IH [OF ws this Cons.prems(4)] Skip show ?thesis
      by (simp add: migrate_loop_Cons del: migrate_loop.simps)
  next
    case (Raise e)
    with Cons.prems show ?thesis
      by (auto simp add: migrate_loop_Cons simp del: migrate_loop.simps)
  next
    case (Insert nm mid prov burl temp aprov)
    obtain res d' where add:
      "db_add_custom_model NoFault (snd (w 0)) nm mid prov burl temp aprov d = (res, d')"
      by (cases "db_add_custom_model NoFault (snd (w 0)) nm mid prov burl temp aprov d")
    then obtain success where res: "res = Inr success"
      by (auto simp: db_add_NoFault split: option.splits if_splits)
    from Cons.prems(3) Insert add res w0
    have rest: "migrate_loop (\<lambda>i. w (Suc i)) ms (if success then k + 1 else k) d' = (r, d1)"
      by (simp add: migrate_loop_Cons del: migrate_loop.simps)
    have "prov = None \<or> nm \<in> set (map col_name (custom_models d'))"
      using add by (auto simp: db_add_NoFault inserted_def split: option.splits if_splits)
    with migrate_loop_names_mono [OF rest] Cons.prems(4)
    have "prov = None \<or> nm \<in> set (map col_name (custom_models d2))"
      by blast
    then have again:
      "db_add_custom_model NoFault (snd (w' 0)) nm mid prov burl temp aprov d2 = (Inr False, d2)"
      by (auto simp: db_add_NoFault split: option.splits)
    from Cons.IH [OF ws rest Cons.prems(4)] Insert again w0 show ?thesis
      by (simp add: migrate_loop_Cons del: migrate_loop.simps)
  qed
qed

text \<open>
  C4. When nothing fails, a second run of \<^verbatim>\<open>migrate_from_json\<close> on the same legacy list,
  from the store the first run left, leaves that store as it is and reports zero migrated
  records: every record is skipped or refused as a duplicate, without an exception. Where
  the first run raised (a \<^verbatim>\<open>config\<close> that is \<^verbatim>\<open>null\<close>), the second raises the same way, and
  the store is the same too.
\<close>

theorem migrate_twice:
  assumes "\<forall>i. fst (w i) = NoFault" and "\<forall>i. fst (w' i) = NoFault"
    and "migrate_from_json NoFault w ms d = (r, d1)"
  shows "migrate_from_json NoFault w' ms d1
           = ((case r of Inl e \<Rightarrow> Inl e | Inr n \<Rightarrow> Inr 0), d1)"
proof -
  from assms(3) have "migrate_loop w ms 0 d = (r, d1)"
    by (simp add: migrate_from_json_def init_database_def)
  from migrate_loop_again [OF assms(1,2) this subset_refl, of 0] show ?thesis
    by (simp add: migrate_from_json_def init_database_def)
qed

theorem migrate_twice_witness:
  "migrate_from_json NoFault (\<lambda>i. (NoFault, 6)) [old1, old1] \<lparr>custom_models = [], seq = 0\<rparr>
     = (Inr 1, \<lparr>custom_models = [old1_row], seq = 1\<rparr>)
   \<and> migrate_from_json NoFault (\<lambda>i. (NoFault, 9)) [old1, old1] \<lparr>custom_models = [old1_row], seq = 1\<rparr>
     = (Inr 0, \<lparr>custom_models = [old1_row], seq = 1\<rparr>)"
proof -
  have first: "migrate_from_json NoFault (\<lambda>i. (NoFault, 6)) [old1, old1] \<lparr>custom_models = [], seq = 0\<rparr>
     = (Inr 1, \<lparr>custom_models = [old1_row], seq = 1\<rparr>)"
    by (simp add: migrate_from_json_def init_database_def old1_def old1_row_def dict_get_def
        db_add_NoFault inserted_def next_id_def default_provider_def default_base_url_def
        default_temperature_def default_api_provider_def)
  have nf: "\<forall>i. fst ((\<lambda>i. (NoFault, 6::nat)) i) = NoFault" "\<forall>i. fst ((\<lambda>i. (NoFault, 9::nat)) i) = NoFault"
    by simp_all
  from migrate_twice [OF nf first] first show ?thesis
    by simp
qed

subsection \<open>Export and migration\<close>

lemma dict_get_of_value: "dict_get (of_value v) dflt = v"
  by (cases v) (simp_all add: dict_get_def of_value_def)

lemma dict_get_Val: "dict_get (Val x) dflt = Some x"
  by (simp add: dict_get_def)

lemma action_of_exported:
  "col_name r \<noteq> '''' \<Longrightarrow> col_model_id r \<noteq> '''' \<Longrightarrow>
   action_of (as_json (row_dict r))
     = Insert (col_name r) (col_model_id r) (Some (col_provider r)) (col_base_url r)
         (col_temperature r) (col_api_provider r)"
  by (simp add: action_of_def as_json_def row_dict_def dict_get_of_value dict_get_Val)

lemma migrate_loop_exported:
  assumes "\<forall>i. fst (w i) = NoFault"
    and "distinct (map col_name rs)"
    and "\<forall>r \<in> set rs. col_name r \<noteq> '''' \<and> col_model_id r \<noteq> ''''"
    and "set (map col_name rs) \<inter> set (map col_name (custom_models d0)) = {}"
  shows "\<exists>d'. migrate_loop w (map (\<lambda>r. as_json (row_dict r)) rs) k d0 = (Inr (k + length rs), d')
           \<and> map profile (custom_models d') = map profile (custom_models d0) @ map profile rs"
  using assms
proof (induction rs arbitrary: w k d0)
  case Nil
  then show ?case by simp
next
  case (Cons r rs)
  let ?d1 = "inserted (snd (w 0)) (col_name r) (col_provider r) (col_model_id r) (col_base_url r)
               (col_temperature r) (col_api_provider r) d0"
  have w0: "fst (w 0) = NoFault" and ws: "\<forall>i. fst (w (Suc i)) = NoFault"
    using Cons.prems(1) by auto
  have fresh: "col_name r \<notin> set (map col_name (custom_models d0))"
    using Cons.prems(4) by auto
  have act: "action_of (as_json (row_dict r))
     = Insert (col_name r) (col_model_id r) (Some (col_provider r)) (col_base_url r)
         (col_temperature r) (col_api_provider r)"
    using Cons.prems(3) by (simp add: action_of_exported)
  have step: "migrate_loop w (map (\<lambda>r. as_json (row_dict r)) (r # rs)) k d0
            = migrate_loop (\<lambda>i. w (Suc i)) (map (\<lambda>r. as_json (row_dict r)) rs) (k + 1) ?d1"
    using fresh w0 by (simp add: migrate_loop_Cons act db_add_NoFault del: migrate_loop.simps)
  have disj: "set (map col_name rs) \<inter> set (map col_name (custom_models ?d1)) = {}"
    using Cons.prems(2,4) by (auto simp: inserted_def)
  have "distinct (map col_name rs)"
    and "\<forall>r \<in> set rs. col_name r \<noteq> '''' \<and> col_model_id r \<noteq> ''''"
    using Cons.prems(2,3) by auto
  from Cons.IH [OF ws this disj, of "k + 1"]
  obtain d' where
    d': "migrate_loop (\<lambda>i. w (Suc i)) (map (\<lambda>r. as_json (row_dict r)) rs) (k + 1) ?d1
           = (Inr (k + 1 + length rs), d')"
    and p: "map profile (custom_models d') = map profile (custom_models ?d1) @ map profile rs"
    by blast
  have "map profile (custom_models ?d1) = map profile (custom_models d0) @ [profile r]"
    by (simp add: inserted_def profile_def)
  with step d' p show ?case by simp
qed

lemma distinct_map_sort_key:
  "distinct (map f (sort_key f xs)) = distinct (map f xs)"
  by (induction xs) (simp_all add: distinct_insort_key)

text \<open>
  C10. For a store whose rows have pairwise distinct, non-empty names and non-empty model
  ids, the list that \<^verbatim>\<open>get_all_custom_models\<close> returns, migrated into an empty store,
  gives a migrated count equal to the number of rows and a store whose rows carry the same
  name, provider, model id, base URL, temperature and API provider, in the order of the
  names.
\<close>

theorem export_then_migrate:
  assumes "distinct (map col_name (custom_models d))"
    and "\<forall>r \<in> set (custom_models d). col_name r \<noteq> '''' \<and> col_model_id r \<noteq> ''''"
    and "\<forall>i. fst (w i) = NoFault"
    and "custom_models d0 = []"
  shows "\<exists>d'. migrate_from_json NoFault w (map as_json (db_get_all_custom_models d)) d0
                 = (Inr (length (custom_models d)), d')
           \<and> map profile (custom_models d') = map profile (sort_key col_name (custom_models d))
           \<and> set (map profile (custom_models d')) = set (map profile (custom_models d))"
proof -
  let ?rs = "sort_key col_name (custom_models d)"
  have "distinct (map col_name ?rs)"
    using assms(1) by (simp add: distinct_map_sort_key)
  moreover have "\<forall>r \<in> set ?rs. col_name r \<noteq> '''' \<and> col_model_id r \<noteq> ''''"
    using assms(2) by simp
  moreover have "set (map col_name ?rs) \<inter> set (map col_name (custom_models d0)) = {}"
    using assms(4) by simp
  ultimately obtain d' where
    run: "migrate_loop w (map (\<lambda>r. as_json (row_dict r)) ?rs) 0 d0 = (Inr (0 + length ?rs), d')"
    and p: "map profile (custom_models d') = map profile (custom_models d0) @ map profile ?rs"
    using migrate_loop_exported [OF assms(3), of ?rs d0 0] by blast
  have "map as_json (db_get_all_custom_models d) = map (\<lambda>r. as_json (row_dict r)) ?rs"
    by (simp add: db_get_all_custom_models_def)
  with run have "migrate_from_json NoFault w (map as_json (db_get_all_custom_models d)) d0
                 = (Inr (length (custom_models d)), d')"
    by (simp add: migrate_from_json_def init_database_def)
  moreover from p assms(4)
  have q: "map profile (custom_models d') = map profile ?rs"
    by simp
  moreover have "set (map profile (custom_models d')) = set (map profile (custom_models d))"
    unfolding q by simp
  ultimately show ?thesis by blast
qed

theorem export_then_migrate_witness:
  "migrate_from_json NoFault (\<lambda>i. (NoFault, 20 + i))
      (map as_json (db_get_all_custom_models \<lparr>custom_models = [team_row, other_row], seq = 5\<rparr>))
      \<lparr>custom_models = [], seq = 0\<rparr>
    = (Inr 2,
       \<lparr>custom_models = [other_row\<lparr>col_id := 1, col_created_at := 20, col_updated_at := 20\<rparr>,
                          team_row\<lparr>col_id := 2, col_created_at := 21, col_updated_at := 21\<rparr>],
        seq = 2\<rparr>)"
proof -
  let ?d = "\<lparr>custom_models = [team_row, other_row], seq = 5\<rparr>"
  let ?w = "\<lambda>i::nat. (NoFault, 20 + i)"
  have 1: "distinct (map col_name (custom_models ?d))"
    by (simp add: team_row_def other_row_def)
  have 2: "\<forall>r \<in> set (custom_models ?d). col_name r \<noteq> '''' \<and> col_model_id r \<noteq> ''''"
    by (simp add: team_row_def other_row_def)
  have 3: "\<forall>i. fst (?w i) = NoFault"
    by simp
  have 4: "custom_models \<lparr>custom_models = [], seq = 0\<rparr> = []"
    by simp
  from export_then_migrate [OF 1 2 3 4] obtain d' where
    run: "migrate_from_json NoFault ?w (map as_json (db_get_all_custom_models ?d))
            \<lparr>custom_models = [], seq = 0\<rparr> = (Inr (length (custom_models ?d)), d')"
    by blast
  have sorted: "db_get_all_custom_models ?d = [row_dict other_row, row_dict team_row]"
    by (simp add: db_get_all_custom_models_def team_row_def other_row_def)
  have "migrate_from_json NoFault ?w [as_json (row_dict other_row), as_json (row_dict team_row)]
            \<lparr>custom_models = [], seq = 0\<rparr>
     = (Inr 2, \<lparr>custom_models = [other_row\<lparr>col_id := 1, col_created_at := 20, col_updated_at := 20\<rparr>,
                          team_row\<lparr>col_id := 2, col_created_at := 21, col_updated_at := 21\<rparr>],
        seq = 2\<rparr>)"
    by (simp add: migrate_from_json_def init_database_def as_json_def row_dict_def of_value_def
        dict_get_def db_add_NoFault inserted_def next_id_def team_row_def other_row_def
        numeral_2_eq_2)
  with run sorted show ?thesis by simp
qed

subsection \<open>Resolution of a profile\<close>

text \<open>
  C1. The claim is that \<^verbatim>\<open>get_model_config\<close> returns a configuration for every name. It
  does not: the function starts by importing \<^verbatim>\<open>get_model_by_name\<close> from
  \<^verbatim>\<open>settings.api_database\<close>, a module that binds no such name (its lookup is
  \<^verbatim>\<open>get_custom_model_by_name\<close>), so every call raises \<^verbatim>\<open>ImportError\<close> and leaves the
  application as it was.
\<close>

theorem get_model_config_raises:
  "get_model_config OPENROUTER_API_KEY env sec choice a = (Inl ImportError, a)"
  by (simp add: get_model_config_def import_from_def api_database_def)

subsection \<open>The key of a built-in profile\<close>

lemma startswith_iff: "startswith s sub \<longleftrightarrow> (\<exists>v. s = sub @ v)"
  by (induction s sub rule: startswith.induct) auto

lemma contains_iff: "contains s sub \<longleftrightarrow> (\<exists>u v. s = u @ sub @ v)"
proof (induction s)
  case Nil
  then show ?case by auto
next
  case (Cons c cs)
  have "(\<exists>u v. c # cs = u @ sub @ v) \<longleftrightarrow> (\<exists>v. c # cs = sub @ v) \<or> (\<exists>u v. cs = u @ sub @ v)"
  proof
    assume "\<exists>u v. c # cs = u @ sub @ v"
    then obtain u v where uv: "c # cs = u @ sub @ v" by blast
    show "(\<exists>v. c # cs = sub @ v) \<or> (\<exists>u v. cs = u @ sub @ v)"
    proof (cases u)
      case Nil
      with uv show ?thesis by auto
    next
      case (Cons x xs)
      with uv have "cs = xs @ sub @ v" by simp
      then show ?thesis by blast
    qed
  next
    assume "(\<exists>v. c # cs = sub @ v) \<or> (\<exists>u v. cs = u @ sub @ v)"
    then show "\<exists>u v. c # cs = u @ sub @ v"
    proof
      assume "\<exists>v. c # cs = sub @ v"
      then obtain v where "c # cs = [] @ sub @ v" by auto
      then show ?thesis by blast
    next
      assume "\<exists>u v. cs = u @ sub @ v"
      then obtain u v where "c # cs = (c # u) @ sub @ v" by auto
      then show ?thesis by blast
    qed
  qed
  with Cons show ?case by (simp add: startswith_iff)
qed

lemma builtin_models:
  "fold (with_builtin_key keys) (MODEL_CHOICES k) [] =
     map (\<lambda>(name, config). (name, StaticModel (config\<lparr>b_config := (b_config config)
                        \<lparr>b_api_key := builtin_api_key keys config\<rparr>\<rparr>))) (MODEL_CHOICES k)"
  by (simp add: MODEL_CHOICES_def with_builtin_key_def)

lemma map_of_fold_custom:
  "n \<notin> set (map m_name ms) \<Longrightarrow> map_of (fold (with_custom_key keys) ms al) n = map_of al n"
  by (induction ms arbitrary: al) (auto simp: with_custom_key_def Let_def update_conv')

lemma map_of_builtin_models:
  "(name, config) \<in> set (MODEL_CHOICES k) \<Longrightarrow>
   map_of (fold (with_builtin_key keys) (MODEL_CHOICES k) []) name =
     Some (StaticModel (config\<lparr>b_config := (b_config config)
                        \<lparr>b_api_key := builtin_api_key keys config\<rparr>\<rparr>))"
  unfolding builtin_models by (auto simp: MODEL_CHOICES_def)

lemma base_keys_total: "\<exists>keys. base_keys env sec = Inr keys"
  by (simp add: base_keys_def load_keys_map)

lemma load_custom_models_reads_store:
  "load_custom_models flt w a = (ms, a') \<Longrightarrow>
     ms = db_get_all_custom_models (store a')
     \<and> ss_custom_models (session a') = Some ms
     \<and> store a' = store (migrate_json_to_sqlite flt w a)
     \<and> files a' = files (migrate_json_to_sqlite flt w a)"
  by (auto simp: load_custom_models_def Let_def)

lemma names_get_all:
  "set (map m_name (db_get_all_custom_models d)) = set (map col_name (custom_models d))"
  by (auto simp: db_get_all_custom_models_def row_dict_def)

lemma migrate_json_session:
  "session (migrate_json_to_sqlite flt w a) = session a"
  by (auto simp: migrate_json_to_sqlite_def split: option.splits sum.splits prod.splits)

lemma get_all_available_models_eq:
  assumes "base_keys env sec = Inr keys"
  shows "get_all_available_models k env sec flt w a =
     (Inr (fold (with_custom_key keys)
             (fst (load_custom_models flt w (a\<lparr>session := (session a)\<lparr>ss_api_keys := Some keys\<rparr>\<rparr>)))
             (fold (with_builtin_key keys) (MODEL_CHOICES k) [])),
      snd (load_custom_models flt w (a\<lparr>session := (session a)\<lparr>ss_api_keys := Some keys\<rparr>\<rparr>)))"
  using assms
  by (simp add: get_all_available_models_def load_api_keys_def Let_def split: prod.splits)

lemma sample_base_keys: "base_keys sample_env None = Inr sample_keys"
  by (simp add: base_keys_def api_key_names_def get_secret_def environ_get_def st_secrets_get_def
      sample_env_def sample_keys_def)

text \<open>
  C6. The key of a built-in profile follows the order of the chain: the Gemini domain in
  the base URL or \<^verbatim>\<open>gemini\<close> in the model name gives the Gemini key; failing that,
  \<^verbatim>\<open>openrouter\<close> in the base URL gives the OpenRouter key; then \<^verbatim>\<open>groq\<close>, then
  \<^verbatim>\<open>x.ai\<close> or \<^verbatim>\<open>grok\<close>, then \<^verbatim>\<open>deepseek\<close>; the OpenAI key is the fallback. Each built-in
  profile that no model of the store replaces appears in \<^verbatim>\<open>get_all_available_models\<close> with
  the key so chosen; the two Gemini profiles, whose base URL is OpenRouter's, get the Gemini
  key, and the DeepSeek profile gets the OpenRouter key.
\<close>

theorem builtin_key_rule_order:
  "(let base_url = lower (b_base_url (b_config config));
        model_name = lower (b_model (b_config config));
        gemini = (contains base_url ''generativelanguage.googleapis.com''
                  \<or> contains model_name ''gemini'');
        openrouter = contains base_url ''openrouter'';
        groq = contains base_url ''groq'';
        grok = (contains base_url ''x.ai'' \<or> contains model_name ''grok'');
        deepseek = (contains base_url ''deepseek'' \<or> contains model_name ''deepseek'');
        key = builtin_api_key keys config
    in (gemini \<longrightarrow> key = keys_get keys ''GEMINI_API_KEY'' '''')
     \<and> (\<not> gemini \<and> openrouter \<longrightarrow> key = keys_get keys ''OPENROUTER_API_KEY'' '''')
     \<and> (\<not> gemini \<and> \<not> openrouter \<and> groq \<longrightarrow> key = keys_get keys ''GROQ_API_KEY'' '''')
     \<and> (\<not> gemini \<and> \<not> openrouter \<and> \<not> groq \<and> grok
          \<longrightarrow> key = keys_get keys ''GROK_API_KEY'' '''')
     \<and> (\<not> gemini \<and> \<not> openrouter \<and> \<not> groq \<and> \<not> grok \<and> deepseek
          \<longrightarrow> key = keys_get keys ''DEEPSEEK_API_KEY'' '''')
     \<and> (\<not> gemini \<and> \<not> openrouter \<and> \<not> groq \<and> \<not> grok \<and> \<not> deepseek
          \<longrightarrow> key = keys_get keys ''OPENAI_API_KEY'' ''''))
   \<and> (\<forall>name builtin ms a'.
         (name, builtin) \<in> set (MODEL_CHOICES OPENROUTER_API_KEY)
         \<and> base_keys env sec = Inr keys
         \<and> get_all_available_models OPENROUTER_API_KEY env sec flt w a = (Inr ms, a')
         \<and> name \<notin> set (map col_name (custom_models (store a')))
         \<longrightarrow> map_of ms name =
               Some (StaticModel (builtin\<lparr>b_config := (b_config builtin)
                        \<lparr>b_api_key := builtin_api_key keys builtin\<rparr>\<rparr>)))
   \<and> builtin_api_key keys (gemini_flash_config OPENROUTER_API_KEY)
         = keys_get keys ''GEMINI_API_KEY'' ''''
   \<and> builtin_api_key keys (gemini_pro_config OPENROUTER_API_KEY)
         = keys_get keys ''GEMINI_API_KEY'' ''''
   \<and> builtin_api_key keys (deepseek_config OPENROUTER_API_KEY)
         = keys_get keys ''OPENROUTER_API_KEY'' ''''"
proof (intro conjI)
  show "let base_url = lower (b_base_url (b_config config));
        model_name = lower (b_model (b_config config));
        gemini = (contains base_url ''generativelanguage.googleapis.com''
                  \<or> contains model_name ''gemini'');
        openrouter = contains base_url ''openrouter'';
        groq = contains base_url ''groq'';
        grok = (contains base_url ''x.ai'' \<or> contains model_name ''grok'');
        deepseek = (contains base_url ''deepseek'' \<or> contains model_name ''deepseek'');
        key = builtin_api_key keys config
    in (gemini \<longrightarrow> key = keys_get keys ''GEMINI_API_KEY'' '''')
     \<and> (\<not> gemini \<and> openrouter \<longrightarrow> key = keys_get keys ''OPENROUTER_API_KEY'' '''')
     \<and> (\<not> gemini \<and> \<not> openrouter \<and> groq \<longrightarrow> key = keys_get keys ''GROQ_API_KEY'' '''')
     \<and> (\<not> gemini \<and> \<not> openrouter \<and> \<not> groq \<and> grok
          \<longrightarrow> key = keys_get keys ''GROK_API_KEY'' '''')
     \<and> (\<not> gemini \<and> \<not> openrouter \<and> \<not> groq \<and> \<not> grok \<and> deepseek
          \<longrightarrow> key = keys_get keys ''DEEPSEEK_API_KEY'' '''')
     \<and> (\<not> gemini \<and> \<not> openrouter \<and> \<not> groq \<and> \<not> grok \<and> \<not> deepseek
          \<longrightarrow> key = keys_get keys ''OPENAI_API_KEY'' '''')"
    unfolding builtin_api_key_def Let_def by (simp del: contains.simps)
next
  show "\<forall>name builtin ms a'.
         (name, builtin) \<in> set (MODEL_CHOICES OPENROUTER_API_KEY)
         \<and> base_keys env sec = Inr keys
         \<and> get_all_available_models OPENROUTER_API_KEY env sec flt w a = (Inr ms, a')
         \<and> name \<notin> set (map col_name (custom_models (store a')))
         \<longrightarrow> map_of ms name =
               Some (StaticModel (builtin\<lparr>b_config := (b_config builtin)
                        \<lparr>b_api_key := builtin_api_key keys builtin\<rparr>\<rparr>))"
  proof (intro allI impI, elim conjE)
    fix name builtin ms a'
    assume mem: "(name, builtin) \<in> set (MODEL_CHOICES OPENROUTER_API_KEY)"
      and keys: "base_keys env sec = Inr keys"
      and run: "get_all_available_models OPENROUTER_API_KEY env sec flt w a = (Inr ms, a')"
      and fresh: "name \<notin> set (map col_name (custom_models (store a')))"
    let ?a1 = "a\<lparr>session := (session a)\<lparr>ss_api_keys := Some keys\<rparr>\<rparr>"
    obtain cs where load: "load_custom_models flt w ?a1 = (cs, a')"
      and ms: "ms = fold (with_custom_key keys) cs
                      (fold (with_builtin_key keys) (MODEL_CHOICES OPENROUTER_API_KEY) [])"
      using run unfolding get_all_available_models_eq [OF keys]
      by (cases "load_custom_models flt w ?a1") auto
    from load_custom_models_reads_store [OF load]
    have "cs = db_get_all_custom_models (store a')"
      by blast
    with fresh have nin: "name \<notin> set (map m_name cs)"
      using names_get_all [of "store a'"] by blast
    show "map_of ms name =
               Some (StaticModel (builtin\<lparr>b_config := (b_config builtin)
                        \<lparr>b_api_key := builtin_api_key keys builtin\<rparr>\<rparr>))"
      unfolding ms using map_of_fold_custom [OF nin, of keys] map_of_builtin_models [OF mem, of keys]
      by simp
  qed
next
  show "builtin_api_key keys (gemini_flash_config OPENROUTER_API_KEY)
         = keys_get keys ''GEMINI_API_KEY'' ''''"
    by (simp add: builtin_api_key_def gemini_flash_config_def lower_def lower_char_def)
next
  show "builtin_api_key keys (gemini_pro_config OPENROUTER_API_KEY)
         = keys_get keys ''GEMINI_API_KEY'' ''''"
    by (simp add: builtin_api_key_def gemini_pro_config_def lower_def lower_char_def)
next
  show "builtin_api_key keys (deepseek_config OPENROUTER_API_KEY)
         = keys_get keys ''OPENROUTER_API_KEY'' ''''"
    by (simp add: builtin_api_key_def deepseek_config_def lower_def lower_char_def)
qed

theorem builtin_key_rule_order_witness:
  "builtin_api_key sample_keys (gemini_flash_config ''o'') = ''g''
   \<and> (\<exists>ms a'. get_all_available_models ''o'' sample_env None NoFault (\<lambda>i. (NoFault, 0)) sample_app
                 = (Inr ms, a')
          \<and> map_of ms ''Gemini-Flash'' =
              Some (StaticModel ((gemini_flash_config ''o'')
                      \<lparr>b_config := (b_config (gemini_flash_config ''o''))\<lparr>b_api_key := ''g''\<rparr>\<rparr>)))"
proof -
  let ?w = "\<lambda>i::nat. (NoFault, 0::nat)"
  note rule = builtin_key_rule_order [where config = "gemini_flash_config ''o''"
      and keys = sample_keys and OPENROUTER_API_KEY = "''o''" and env = sample_env
      and sec = None and flt = NoFault and w = ?w and a = sample_app]
  have gem: "contains (lower (b_model (b_config (gemini_flash_config ''o'')))) ''gemini''"
    by (simp add: gemini_flash_config_def lower_def lower_char_def)
  have "builtin_api_key sample_keys (gemini_flash_config ''o'')
          = keys_get sample_keys ''GEMINI_API_KEY'' ''''"
    using rule [THEN conjunct1] gem unfolding Let_def by blast
  then have key: "builtin_api_key sample_keys (gemini_flash_config ''o'') = ''g''"
    by (simp add: keys_get_def sample_keys_def)
  obtain ms a' where run:
    "get_all_available_models ''o'' sample_env None NoFault ?w sample_app = (Inr ms, a')"
    unfolding get_all_available_models_eq [OF sample_base_keys] by blast
  have "a' = snd (load_custom_models NoFault ?w
                   (sample_app\<lparr>session := (session sample_app)\<lparr>ss_api_keys := Some sample_keys\<rparr>\<rparr>))"
    using run unfolding get_all_available_models_eq [OF sample_base_keys] by simp
  then have "store a' = store sample_app"
    by (simp add: load_custom_models_def migrate_json_to_sqlite_def sample_app_def Let_def)
  then have fresh: "''Gemini-Flash'' \<notin> set (map col_name (custom_models (store a')))"
    by (simp add: sample_app_def team_row_def)
  have mem: "(''Gemini-Flash'', gemini_flash_config ''o'') \<in> set (MODEL_CHOICES ''o'')"
    by (simp add: MODEL_CHOICES_def)
  from rule [THEN conjunct2, THEN conjunct1, rule_format, of "''Gemini-Flash''"
               "gemini_flash_config ''o''" ms a'] mem sample_base_keys run fresh
  have "map_of ms ''Gemini-Flash'' =
          Some (StaticModel ((gemini_flash_config ''o'')
                 \<lparr>b_config := (b_config (gemini_flash_config ''o''))
                    \<lparr>b_api_key := builtin_api_key sample_keys (gemini_flash_config ''o'')\<rparr>\<rparr>))"
    by blast
  with key run show ?thesis by simp
qed

subsection \<open>The legacy file after migration\<close>

text \<open>
  C9, as stated, fails: a legacy file that holds the empty list is read by the migrator
  and is still at the legacy path afterwards, since the rename stands inside
  \<^verbatim>\<open>if json_models:\<close>.
\<close>

theorem empty_legacy_file_stays_counterexample:
  "files (migrate_json_to_sqlite NoFault (\<lambda>i. (NoFault, 0))
            (sample_app\<lparr>files := [LEGACY_CUSTOM_MODELS_FILE \<mapsto> JsonList []]\<rparr>))
      LEGACY_CUSTOM_MODELS_FILE = Some (JsonList [])"
  by (simp add: migrate_json_to_sqlite_def json_load_def)

lemma backup_differs: "LEGACY_CUSTOM_MODELS_FILE @ ''.migrated'' \<noteq> LEGACY_CUSTOM_MODELS_FILE"
  by simp

text \<open>
  C9 (as amended). When the legacy file is there, holds a list that is not empty, and
  \<^verbatim>\<open>migrate_from_json\<close> returns, the migrator renames the file to the backup path: nothing
  is left at the legacy path, the store is the one the migration made, and a further run of
  the migrator changes nothing. With no legacy file the migrator changes nothing. A legacy
  file that holds the empty list, or no JSON, stays where it is, with the store unchanged.
\<close>

theorem legacy_file_consumed:
  "(files a LEGACY_CUSTOM_MODELS_FILE = Some (JsonList ms) \<and> ms \<noteq> []
      \<and> migrate_from_json flt w ms (store a) = (Inr n, d')
     \<longrightarrow> (let a' = migrate_json_to_sqlite flt w a in
            files a' LEGACY_CUSTOM_MODELS_FILE = None
          \<and> files a' (LEGACY_CUSTOM_MODELS_FILE @ ''.migrated'') = Some (JsonList ms)
          \<and> store a' = d' \<and> session a' = session a
          \<and> migrate_json_to_sqlite flt' w' a' = a'))
   \<and> (files a LEGACY_CUSTOM_MODELS_FILE = None \<longrightarrow> migrate_json_to_sqlite flt w a = a)
   \<and> (files a LEGACY_CUSTOM_MODELS_FILE = Some (JsonList [])
        \<or> files a LEGACY_CUSTOM_MODELS_FILE = Some NotJson
       \<longrightarrow> migrate_json_to_sqlite flt w a = a)"
proof (intro conjI impI)
  assume h: "files a LEGACY_CUSTOM_MODELS_FILE = Some (JsonList ms) \<and> ms \<noteq> []
      \<and> migrate_from_json flt w ms (store a) = (Inr n, d')"
  let ?fs = "((files a)(LEGACY_CUSTOM_MODELS_FILE := None))
               (LEGACY_CUSTOM_MODELS_FILE @ ''.migrated'' \<mapsto> JsonList ms)"
  have run: "migrate_json_to_sqlite flt w a = a\<lparr>store := d', files := ?fs\<rparr>"
    using h by (simp add: migrate_json_to_sqlite_def json_load_def os_rename_def)
  have gone: "?fs LEGACY_CUSTOM_MODELS_FILE = None"
    using backup_differs by simp
  then have "migrate_json_to_sqlite flt' w' (a\<lparr>store := d', files := ?fs\<rparr>)
               = a\<lparr>store := d', files := ?fs\<rparr>"
    by (simp add: migrate_json_to_sqlite_def)
  with gone show "let a' = migrate_json_to_sqlite flt w a in
            files a' LEGACY_CUSTOM_MODELS_FILE = None
          \<and> files a' (LEGACY_CUSTOM_MODELS_FILE @ ''.migrated'') = Some (JsonList ms)
          \<and> store a' = d' \<and> session a' = session a
          \<and> migrate_json_to_sqlite flt' w' a' = a'"
    unfolding run Let_def by simp
next
  assume "files a LEGACY_CUSTOM_MODELS_FILE = None"
  then show "migrate_json_to_sqlite flt w a = a"
    by (simp add: migrate_json_to_sqlite_def)
next
  assume "files a LEGACY_CUSTOM_MODELS_FILE = Some (JsonList [])
        \<or> files a LEGACY_CUSTOM_MODELS_FILE = Some NotJson"
  then show "migrate_json_to_sqlite flt w a = a"
    by (auto simp: migrate_json_to_sqlite_def json_load_def)
qed

theorem legacy_file_consumed_witness:
  "migrate_json_to_sqlite NoFault (\<lambda>i. (NoFault, 6))
      \<lparr>store = \<lparr>custom_models = [], seq = 0\<rparr>,
       session = \<lparr>ss_api_keys = None, ss_custom_models = None\<rparr>,
       files = [LEGACY_CUSTOM_MODELS_FILE \<mapsto> JsonList [old1, old1]]\<rparr>
    = \<lparr>store = \<lparr>custom_models = [old1_row], seq = 1\<rparr>,
       session = \<lparr>ss_api_keys = None, ss_custom_models = None\<rparr>,
       files = [LEGACY_CUSTOM_MODELS_FILE @ ''.migrated'' \<mapsto> JsonList [old1, old1]]\<rparr>
   \<and> migrate_json_to_sqlite NoFault (\<lambda>i. (NoFault, 9))
      \<lparr>store = \<lparr>custom_models = [old1_row], seq = 1\<rparr>,
       session = \<lparr>ss_api_keys = None, ss_custom_models = None\<rparr>,
       files = [LEGACY_CUSTOM_MODELS_FILE @ ''.migrated'' \<mapsto> JsonList [old1, old1]]\<rparr>
    = \<lparr>store = \<lparr>custom_models = [old1_row], seq = 1\<rparr>,
       session = \<lparr>ss_api_keys = None, ss_custom_models = None\<rparr>,
       files = [LEGACY_CUSTOM_MODELS_FILE @ ''.migrated'' \<mapsto> JsonList [old1, old1]]\<rparr>"
proof -
  let ?a = "\<lparr>store = \<lparr>custom_models = [], seq = 0\<rparr>,
       session = \<lparr>ss_api_keys = None, ss_custom_models = None\<rparr>,
       files = [LEGACY_CUSTOM_MODELS_FILE \<mapsto> JsonList [old1, old1]]\<rparr>"
  let ?b = "\<lparr>store = \<lparr>custom_models = [old1_row], seq = 1\<rparr>,
       session = \<lparr>ss_api_keys = None, ss_custom_models = None\<rparr>,
       files = [LEGACY_CUSTOM_MODELS_FILE @ ''.migrated'' \<mapsto> JsonList [old1, old1]]\<rparr>"
  let ?w = "\<lambda>i::nat. (NoFault, 6::nat)"
  let ?w' = "\<lambda>i::nat. (NoFault, 9::nat)"
  have present: "files ?a LEGACY_CUSTOM_MODELS_FILE = Some (JsonList [old1, old1])"
    by simp
  have run: "migrate_from_json NoFault ?w [old1, old1] (store ?a)
               = (Inr 1, \<lparr>custom_models = [old1_row], seq = 1\<rparr>)"
    by (simp add: migrate_from_json_def init_database_def old1_def old1_row_def dict_get_def
        db_add_NoFault inserted_def next_id_def default_provider_def default_base_url_def
        default_temperature_def default_api_provider_def)
  note c = legacy_file_consumed [where a = ?a and ms = "[old1, old1]" and flt = NoFault and w = ?w
             and n = 1 and d' = "\<lparr>custom_models = [old1_row], seq = 1\<rparr>"
             and flt' = NoFault and w' = ?w', THEN conjunct1, rule_format]
  have all: "let a' = migrate_json_to_sqlite NoFault ?w ?a in
            files a' LEGACY_CUSTOM_MODELS_FILE = None
          \<and> files a' (LEGACY_CUSTOM_MODELS_FILE @ ''.migrated'') = Some (JsonList [old1, old1])
          \<and> store a' = \<lparr>custom_models = [old1_row], seq = 1\<rparr> \<and> session a' = session ?a
          \<and> migrate_json_to_sqlite NoFault ?w' a' = a'"
    by (rule c) (use present run in simp)
  have eq: "migrate_json_to_sqlite NoFault ?w ?a = ?b"
    using run by (simp add: migrate_json_to_sqlite_def json_load_def os_rename_def fun_upd_twist)
  from all show ?thesis
    unfolding eq Let_def by simp
qed

subsection \<open>The cached list of models\<close>





lemma pending_legacy_file_is_migrated_first:
  "fst (load_custom_models NoFault (\<lambda>i. (NoFault, 6))
         \<lparr>store = \<lparr>custom_models = [], seq = 1\<rparr>,
          session = \<lparr>ss_api_keys = None, ss_custom_models = None\<rparr>,
          files = [LEGACY_CUSTOM_MODELS_FILE \<mapsto> JsonList [old1]]\<rparr>)
     = [row_dict (old1_row\<lparr>col_id := 2\<rparr>)]"
  by (simp add: load_custom_models_def migrate_json_to_sqlite_def json_load_def os_rename_def
      migrate_from_json_def init_database_def old1_def old1_row_def dict_get_def
      db_add_NoFault inserted_def next_id_def default_provider_def default_base_url_def
      default_temperature_def default_api_provider_def db_get_all_custom_models_def
      numeral_2_eq_2 Let_def)



end
